theory Spec2Isabelle
  imports Main
begin

section \<open>Effects: traces of external calls, errors as values\<close>

text \<open>
  The iOS run command (\<^verbatim>\<open>runIosAsync\<close>) and the notification screen are glue code:
  sequences of awaited calls into collaborators that live outside the modelled files.
  A run is modelled as the list of external calls it makes, in order, together with its
  outcome: \<open>Inl e\<close> when an exception \<open>e\<close> escapes, \<open>Inr v\<close> when it returns \<open>v\<close>.
  What each collaborator answers is a parameter (the records \<open>env\<close> and \<open>notif_env\<close>).
\<close>

datatype error =
    Error string          \<comment> \<open>\<^verbatim>\<open>new Error(msg)\<close>\<close>
  | CommandError string   \<comment> \<open>\<^verbatim>\<open>new CommandError(msg)\<close>\<close>
  | TypeError string      \<comment> \<open>raised by the runtime, e.g. \<^verbatim>\<open>path.join(undefined)\<close>\<close>
  | ProcessExit string    \<comment> \<open>the process was ended by \<^verbatim>\<open>Log.exit(msg)\<close>\<close>

type_synonym provider = string
type_synonym manager = nat

record options =
  configuration :: string
  install :: bool
  binary :: "string option"
  withArchive :: bool
  rebundle :: bool

record props =
  projectRoot :: string
  scheme :: string
  isSimulator :: bool
  buildCacheProvider :: "provider option"
  device_udid :: string
  port :: nat
  shouldStartBundler :: bool

record launchInfo =
  bundleId :: string
  schemes :: "string list"

record eager_opts =
  resetCache :: "bool option"
  dev :: bool
  platform :: string
  assetsDest :: "string option"
  bundleOutput :: "string option"

datatype event =
    is_SetNodeEnv: SetNodeEnv string
  | is_EnvLoad: EnvLoad string
  | is_LogExit: LogExit string
  | is_EnsureNativeProject: EnsureNativeProject string bool
  | is_MaybePromptToSyncPods: MaybePromptToSyncPods string
  | is_ResolveOptions: ResolveOptions string
  | is_LogLog: LogLog "string list"
  | is_LogWarn: LogWarn "string list"
  | is_Debug: Debug "string list"
  | is_DebugError: DebugError string error
  | is_ExportArchive: ExportArchive string string
  | is_ResolveBuildCache: ResolveBuildCache string provider
  | is_GetAppId: GetAppId string
  | is_GetContainerPath: GetContainerPath string string
  | is_RequireResolve: RequireResolve string
  | is_Spawn: Spawn string "string list"
  | is_ExistsSync: ExistsSync string
  | is_ExportEager: ExportEager string eager_opts
  | is_GetValidBinaryPath: GetValidBinaryPath string
  | is_Archive: Archive "string option"
  | is_Build: Build "string option"
  | is_GetAppBinaryPath: GetAppBinaryPath string
  | is_EnsurePortAvailability: EnsurePortAvailability string
  | is_GetLaunchInfo: GetLaunchInfo string
  | is_SimctlTerminate: SimctlTerminate string string
  | is_GetSchemesForIos: GetSchemesForIos string
  | is_StartBundler: StartBundler nat bool "string option"
  | is_LaunchApp: LaunchApp string manager bool bool string
  | is_LogProjectLogsLocation: LogProjectLogsLocation
  | is_ManagerStop: ManagerStop manager
  | is_UploadBuildCache: UploadBuildCache string provider string bool

type_synonym ('ev, 'e, 'a) run = "'ev list \<times> ('e + 'a)"

definition ret :: "'a \<Rightarrow> ('ev, 'e, 'a) run" where
  "ret x = ([], Inr x)"

definition throw :: "'e \<Rightarrow> ('ev, 'e, 'a) run" where
  "throw e = ([], Inl e)"

definition call :: "'ev \<Rightarrow> 'e + 'a \<Rightarrow> ('ev, 'e, 'a) run" where
  "call ev outcome = ([ev], outcome)"

definition emit :: "'ev \<Rightarrow> ('ev, 'e, unit) run" where
  "emit ev = ([ev], Inr ())"

definition bnd :: "('ev, 'e, 'a) run \<Rightarrow> ('a \<Rightarrow> ('ev, 'e, 'b) run) \<Rightarrow> ('ev, 'e, 'b) run" where
  "bnd m f = (case m of
      (tr, Inl e) \<Rightarrow> (tr, Inl e)
    | (tr, Inr x) \<Rightarrow> (case f x of (tr', r) \<Rightarrow> (tr @ tr', r)))"

text \<open>\<^verbatim>\<open>try { m } catch (e) { h }\<close>\<close>

definition catch :: "('ev, 'e, 'a) run \<Rightarrow> ('e \<Rightarrow> ('ev, 'e, 'a) run) \<Rightarrow> ('ev, 'e, 'a) run" where
  "catch m h = (case m of
      (tr, Inl e) \<Rightarrow> (case h e of (tr', r) \<Rightarrow> (tr @ tr', r))
    | (tr, Inr x) \<Rightarrow> (tr, Inr x))"

type_synonym 'a cli = "(event, error, 'a) run"

text \<open>JavaScript truthiness of a \<^verbatim>\<open>string | undefined\<close>: the empty string is falsy.\<close>

definition truthy :: "string option \<Rightarrow> bool" where
  "truthy s = (case s of None \<Rightarrow> False | Some v \<Rightarrow> v \<noteq> [])"

text \<open>\<^verbatim>\<open>a || b\<close> on a \<^verbatim>\<open>string | undefined\<close> and a string.\<close>

definition or_else :: "string option \<Rightarrow> string \<Rightarrow> string" where
  "or_else a b = (case a of None \<Rightarrow> b | Some v \<Rightarrow> if v = [] then b else v)"

text \<open>\<^verbatim>\<open>xs?.[0]\<close> and \<^verbatim>\<open>xs[0]\<close>: \<^verbatim>\<open>undefined\<close> when there is no first element.\<close>

definition first_of :: "string list \<Rightarrow> string option" where
  "first_of xs = (case xs of [] \<Rightarrow> None | x # _ \<Rightarrow> Some x)"

section \<open>The collaborators of the iOS run command\<close>

text \<open>
  None of the imported modules is part of the modelled file; each is a field of \<open>env\<close>
  giving the outcome of the call for its arguments. \<^verbatim>\<open>path.join\<close>,
  \<^verbatim>\<open>JSON.stringify\<close> and \<^verbatim>\<open>process.platform\<close> belong to the runtime and are fields
  as well. \<^verbatim>\<open>profile(f)\<close> only measures time and is \<open>f\<close>.
\<close>

record env =
  process_platform :: string
  path_join :: "string list \<Rightarrow> string"
  JSON_stringify :: "string \<Rightarrow> string"
  setNodeEnv :: "string \<Rightarrow> error + unit"
  env_load :: "string \<Rightarrow> error + unit"
  ensureNativeProjectAsync :: "string \<Rightarrow> bool \<Rightarrow> error + bool"
  maybePromptToSyncPodsAsync :: "string \<Rightarrow> error + unit"
  resolveOptionsAsync :: "string \<Rightarrow> options \<Rightarrow> error + props"
  exportArchiveAsync :: "string \<Rightarrow> string \<Rightarrow> error + string"
  resolveBuildCache :: "string \<Rightarrow> options \<Rightarrow> provider \<Rightarrow> error + string option"
  getAppIdAsync :: "string \<Rightarrow> error + string"
  getContainerPathAsync :: "string \<Rightarrow> string \<Rightarrow> error + string option"
  require_resolve :: "string \<Rightarrow> error + string"
  spawnAsync :: "string \<Rightarrow> string list \<Rightarrow> error + unit"
  existsSync :: "string \<Rightarrow> bool"
  exportEagerAsync :: "string \<Rightarrow> eager_opts \<Rightarrow> error + string"
  getValidBinaryPathAsync :: "string \<Rightarrow> props \<Rightarrow> error + string"
  archiveAsync :: "props \<Rightarrow> string option \<Rightarrow> error + string"
  buildAsync :: "props \<Rightarrow> string option \<Rightarrow> error + string"
  getAppBinaryPath :: "string \<Rightarrow> error + string"
  ensurePortAvailabilityAsync :: "string \<Rightarrow> props \<Rightarrow> error + bool"
  getLaunchInfoForBinaryAsync :: "string \<Rightarrow> error + launchInfo"
  simctlAsync :: "string list \<Rightarrow> error + unit"
  getSchemesForIosAsync :: "string \<Rightarrow> error + string list option"
  startBundlerAsync :: "string \<Rightarrow> nat \<Rightarrow> bool \<Rightarrow> string option \<Rightarrow> error + manager"
  launchAppAsync :: "string \<Rightarrow> manager \<Rightarrow> bool \<Rightarrow> string \<Rightarrow> bool \<Rightarrow> string \<Rightarrow> error + unit"
  stopAsync :: "manager \<Rightarrow> error + unit"
  uploadBuildCache :: "string \<Rightarrow> provider \<Rightarrow> string \<Rightarrow> options \<Rightarrow> bool \<Rightarrow> error + unit"

section \<open>The iOS run command\<close>

text \<open>
  Modelled from the spec: \<^verbatim>\<open>Log.exit\<close> of the module \<^verbatim>\<open>../../log\<close>, which is not among the
  sources. The command "exits with a user-facing message": the message is printed and the
  process ends, so nothing after the call runs.
\<close>

definition Log_exit :: "string \<Rightarrow> unit cli" where
  "Log_exit msg = ([LogExit msg], Inl (ProcessExit msg))"

text \<open>\<^verbatim>\<open>assertPlatform\<close>, lines 230-236. The colouring done by \<^verbatim>\<open>chalk\<close> is left out.\<close>

definition assertPlatform :: "env \<Rightarrow> unit cli" where
  "assertPlatform env =
     (if process_platform env \<noteq> ''darwin'' then
        Log_exit ''iOS apps can only be built on macOS devices. Use eas build -p ios to build in the cloud.''
      else ret ())"

text \<open>Line 29: the argument of \<^verbatim>\<open>setNodeEnv\<close>.\<close>

definition nodeEnvMode :: "options \<Rightarrow> string" where
  "nodeEnvMode options =
     (if configuration options = ''Release'' then ''production'' else ''development'')"

text \<open>Lines 29-47: environment, platform check, native project, option resolution.\<close>

definition prepare :: "env \<Rightarrow> string \<Rightarrow> options \<Rightarrow> props cli" where
  "prepare env root options =
     (let mode = nodeEnvMode options in
      bnd (call (SetNodeEnv mode) (setNodeEnv env mode)) (\<lambda>_.
      bnd (call (EnvLoad root) (env_load env root)) (\<lambda>_.
      bnd (assertPlatform env) (\<lambda>_.
      bnd (call (EnsureNativeProject root (install options))
             (ensureNativeProjectAsync env root (install options))) (\<lambda>created.
      bnd (if created \<and> install options then
             call (MaybePromptToSyncPods root) (maybePromptToSyncPodsAsync env root)
           else ret ()) (\<lambda>_.
      call (ResolveOptions root) (resolveOptionsAsync env root options)))))))"

text \<open>
  Lines 49-71: restore a cached build. The result is the options object after the
  assignment to \<^verbatim>\<open>options.binary\<close>.
\<close>

definition restoreCachedBuild :: "env \<Rightarrow> string \<Rightarrow> options \<Rightarrow> props \<Rightarrow> options cli" where
  "restoreCachedBuild env root options props =
     (if \<not> truthy (binary options) \<and> withArchive options then
        (let archivePath =
               path_join env [projectRoot props, ''.expo'', ''archives'', scheme props @ ''.xcarchive'']
         in
         bnd (emit (LogLog [''Found cached archive, exporting signed IPA...''])) (\<lambda>_.
         bnd (call (ExportArchive archivePath root) (exportArchiveAsync env archivePath root)) (\<lambda>ipaPath.
         ret (options\<lparr>binary := Some ipaPath\<rparr>))))
      else
        (case buildCacheProvider props of
           None \<Rightarrow> ret options
         | Some provider \<Rightarrow>
             if \<not> truthy (binary options) \<and> isSimulator props then
               bnd (call (ResolveBuildCache root provider) (resolveBuildCache env root options provider))
                 (\<lambda>localPath.
                    if truthy localPath then ret (options\<lparr>binary := localPath\<rparr>) else ret options)
             else ret options))"

text \<open>
  Lines 77-95: the binary to rebundle into, when \<^verbatim>\<open>options.binary\<close> is not set.
  \<^verbatim>\<open>!possibleBinaryPath\<close> holds for \<^verbatim>\<open>null\<close> and for the empty string.
\<close>

definition findExistingBinary :: "env \<Rightarrow> string \<Rightarrow> options \<Rightarrow> props \<Rightarrow> options cli" where
  "findExistingBinary env root options props =
     (if \<not> truthy (binary options) then
        (if \<not> isSimulator props then
           throw (Error ''Re-bundling on physical devices requires the --binary flag.'')
         else
           bnd (call (GetAppId root) (getAppIdAsync env root)) (\<lambda>appId.
           bnd (call (GetContainerPath (device_udid props) appId)
                  (getContainerPathAsync env (device_udid props) appId)) (\<lambda>possibleBinaryPath.
           if \<not> truthy possibleBinaryPath then
             throw (CommandError
               (''Cannot rebundle because no --binary was provided and no existing binary was found on the device for ID: ''
                  @ appId @ ''.''))
           else
             bnd (emit (LogLog (''Re-using existing binary path:'' # (case possibleBinaryPath of
                                    None \<Rightarrow> [] | Some binaryPath \<Rightarrow> [binaryPath])))) (\<lambda>_.
             ret (options\<lparr>binary := possibleBinaryPath\<rparr>)))))
      else ret options)"

text \<open>
  Lines 97-119: rebundle the config file and the JavaScript into the binary at
  \<^verbatim>\<open>options.binary\<close>. \<^verbatim>\<open>path.join\<close> raises a TypeError on \<^verbatim>\<open>undefined\<close>.
\<close>

definition rebundleInto :: "env \<Rightarrow> string \<Rightarrow> string option \<Rightarrow> unit cli" where
  "rebundleInto env root bin =
     bnd (emit (LogLog [''Rebundling the Expo config file''])) (\<lambda>_.
     bnd (call (RequireResolve ''expo-constants/package.json'')
            (require_resolve env ''expo-constants/package.json'')) (\<lambda>pkg.
     case bin of
       None \<Rightarrow> throw (TypeError ''The path argument must be of type string. Received undefined'')
     | Some b \<Rightarrow>
         (let args = [path_join env [pkg, ''../scripts/getAppConfig.js''], root,
                      path_join env [b, ''EXConstants.bundle'']];
              possibleBundleOutput = path_join env [b, ''main.jsbundle'']
          in
          bnd (call (Spawn ''node'' args) (spawnAsync env ''node'' args)) (\<lambda>_.
          bnd (call (ExistsSync possibleBundleOutput) (Inr (existsSync env possibleBundleOutput))) (\<lambda>found.
          if found then
            (let eopts = \<lparr>resetCache = Some False, dev = False, platform = ''ios'',
                          assetsDest = Some (path_join env [b, ''assets'']),
                          bundleOutput = Some possibleBundleOutput\<rparr>
             in
             bnd (emit (LogLog [''Rebundling the app...''])) (\<lambda>_.
             bnd (call (ExportEager root eopts) (exportEagerAsync env root eopts)) (\<lambda>_.
             ret ())))
          else
            emit (LogWarn [''Bundle output not found at expected location:'', possibleBundleOutput]))))))"

text \<open>Lines 73-120.\<close>

definition rebundleStep :: "env \<Rightarrow> string \<Rightarrow> options \<Rightarrow> props \<Rightarrow> options cli" where
  "rebundleStep env root options props =
     (if rebundle options then
        bnd (emit (LogWarn [''The --unstable-rebundle flag is experimental and may not work as expected.''])) (\<lambda>_.
        bnd (findExistingBinary env root options props) (\<lambda>options.
        bnd (rebundleInto env root (binary options)) (\<lambda>_.
        ret options)))
      else ret options)"

text \<open>
  Lines 129-157: a fresh build. The result is \<^verbatim>\<open>binaryPath\<close> and \<^verbatim>\<open>archivePath\<close>.
\<close>

definition freshBuild :: "env \<Rightarrow> string \<Rightarrow> options \<Rightarrow> props \<Rightarrow> (string \<times> string option) cli" where
  "freshBuild env root options props =
     bnd (if configuration options = ''Release'' then
            (let eopts = \<lparr>resetCache = None, dev = False, platform = ''ios'',
                          assetsDest = None, bundleOutput = None\<rparr>
             in
             bnd (call (ExportEager root eopts) (exportEagerAsync env root eopts)) (\<lambda>r.
             ret (Some (JSON_stringify env r))))
          else ret None) (\<lambda>eagerBundleOptions.
     if \<not> isSimulator props \<and> buildCacheProvider props \<noteq> None \<and> withArchive options then
       bnd (call (Archive eagerBundleOptions) (archiveAsync env props eagerBundleOptions)) (\<lambda>archivePath.
       bnd (call (ExportArchive archivePath root) (exportArchiveAsync env archivePath root)) (\<lambda>binaryPath.
       ret (binaryPath, Some archivePath)))
     else
       bnd (call (Build eagerBundleOptions) (buildAsync env props eagerBundleOptions)) (\<lambda>buildOutput.
       bnd (call (GetAppBinaryPath buildOutput) (getAppBinaryPath env buildOutput)) (\<lambda>binaryPath.
       ret (binaryPath, None))))"

text \<open>
  Lines 122-159: build or reuse a binary. The result is \<^verbatim>\<open>binaryPath\<close>,
  \<^verbatim>\<open>shouldUpdateBuildCache\<close> and \<^verbatim>\<open>archivePath\<close>.
\<close>

definition buildOrReuse ::
  "env \<Rightarrow> string \<Rightarrow> options \<Rightarrow> props \<Rightarrow> (string \<times> bool \<times> string option) cli" where
  "buildOrReuse env root options props =
     bnd (case binary options of
            None \<Rightarrow>
              bnd (freshBuild env root options props) (\<lambda>(binaryPath, archivePath).
              ret (binaryPath, True, archivePath))
          | Some b \<Rightarrow>
              if b = [] then
                bnd (freshBuild env root options props) (\<lambda>(binaryPath, archivePath).
                ret (binaryPath, True, archivePath))
              else
                bnd (call (GetValidBinaryPath b) (getValidBinaryPathAsync env b props)) (\<lambda>binaryPath.
                bnd (emit (LogLog [''Using custom binary path:'', binaryPath])) (\<lambda>_.
                ret (binaryPath, False, None)))) (\<lambda>(binaryPath, shouldUpdateBuildCache, archivePath).
     bnd (emit (Debug [''Binary path:'', binaryPath])) (\<lambda>_.
     ret (binaryPath, shouldUpdateBuildCache, archivePath)))"

text \<open>Lines 161-164: the port may have become busy during the build.\<close>

definition checkPort :: "env \<Rightarrow> string \<Rightarrow> props \<Rightarrow> props cli" where
  "checkPort env root props =
     (if shouldStartBundler props then
        bnd (call (EnsurePortAvailability root) (ensurePortAvailabilityAsync env root props)) (\<lambda>available.
        if \<not> available then ret (props\<lparr>shouldStartBundler := False\<rparr>) else ret props)
      else ret props)"

text \<open>Lines 169-177: close the app on a simulator; a failure is caught.\<close>

definition terminateApp :: "env \<Rightarrow> props \<Rightarrow> launchInfo \<Rightarrow> unit cli" where
  "terminateApp env props info =
     (if isSimulator props then
        catch (call (SimctlTerminate (device_udid props) (bundleId info))
                 (simctlAsync env [''terminate'', device_udid props, bundleId info]))
          (\<lambda>error. emit (DebugError ''Failed to terminate app (possibly because it was not running):'' error))
      else ret ())"

text \<open>Lines 179-191: start the dev server; the scheme is computed before the call.\<close>

definition startBundler :: "env \<Rightarrow> string \<Rightarrow> options \<Rightarrow> props \<Rightarrow> launchInfo \<Rightarrow> manager cli" where
  "startBundler env root options props info =
     bnd (if truthy (binary options) then ret (first_of (schemes info))
          else
            bnd (call (GetSchemesForIos root) (getSchemesForIosAsync env root)) (\<lambda>found.
            ret (case found of None \<Rightarrow> None | Some xs \<Rightarrow> first_of xs))) (\<lambda>sch.
     call (StartBundler (port props) (\<not> shouldStartBundler props) sch)
       (startBundlerAsync env root (port props) (\<not> shouldStartBundler props) sch))"

text \<open>Lines 193-203.\<close>

definition launchApp :: "env \<Rightarrow> string \<Rightarrow> manager \<Rightarrow> props \<Rightarrow> launchInfo \<Rightarrow> unit cli" where
  "launchApp env binaryPath mgr props info =
     call (LaunchApp binaryPath mgr (isSimulator props) (shouldStartBundler props) (bundleId info))
       (launchAppAsync env binaryPath mgr (isSimulator props) (device_udid props)
          (shouldStartBundler props) (bundleId info))"

text \<open>Lines 205-210.\<close>

definition logOrStop :: "env \<Rightarrow> manager \<Rightarrow> props \<Rightarrow> unit cli" where
  "logOrStop env mgr props =
     (if shouldStartBundler props then emit LogProjectLogsLocation
      else call (ManagerStop mgr) (stopAsync env mgr))"

text \<open>Lines 212-227.\<close>

definition updateBuildCache ::
  "env \<Rightarrow> string \<Rightarrow> options \<Rightarrow> props \<Rightarrow> string \<Rightarrow> bool \<Rightarrow> string option \<Rightarrow> unit cli" where
  "updateBuildCache env root options props binaryPath shouldUpdateBuildCache archivePath =
     (case buildCacheProvider props of
        None \<Rightarrow> ret ()
      | Some provider \<Rightarrow>
          if shouldUpdateBuildCache then
            (let unsigned = (\<not> isSimulator props \<and> truthy archivePath);
                 buildPath = or_else archivePath binaryPath
             in
             call (UploadBuildCache root provider buildPath unsigned)
               (uploadBuildCache env root provider buildPath options unsigned))
          else ret ())"

text \<open>Lines 161-227: everything after the binary is known.\<close>

definition launchBinary ::
  "env \<Rightarrow> string \<Rightarrow> options \<Rightarrow> props \<Rightarrow> string \<times> bool \<times> string option \<Rightarrow> unit cli" where
  "launchBinary env root options props0 built =
     (case built of (binaryPath, shouldUpdateBuildCache, archivePath) \<Rightarrow>
      bnd (checkPort env root props0) (\<lambda>props.
      bnd (call (GetLaunchInfo binaryPath) (getLaunchInfoForBinaryAsync env binaryPath)) (\<lambda>info.
      bnd (terminateApp env props info) (\<lambda>_.
      bnd (startBundler env root options props info) (\<lambda>mgr.
      bnd (launchApp env binaryPath mgr props info) (\<lambda>_.
      bnd (logOrStop env mgr props) (\<lambda>_.
      updateBuildCache env root options props binaryPath shouldUpdateBuildCache archivePath)))))))"

text \<open>\<^verbatim>\<open>runIosAsync\<close>, lines 28-228.\<close>

definition runIosAsync :: "env \<Rightarrow> string \<Rightarrow> options \<Rightarrow> unit cli" where
  "runIosAsync env root options0 =
     bnd (prepare env root options0) (\<lambda>props.
     bnd (restoreCachedBuild env root options0 props) (\<lambda>options1.
     bnd (rebundleStep env root options1 props) (\<lambda>options.
     bnd (buildOrReuse env root options props) (\<lambda>built.
     launchBinary env root options props built))))"

text \<open>
  Lines 29-159, the run up to the point where the binary is known: the resolved options,
  the options object as it then is, and what the build step returned.
\<close>

definition obtainBinary ::
  "env \<Rightarrow> string \<Rightarrow> options \<Rightarrow> (props \<times> options \<times> string \<times> bool \<times> string option) cli" where
  "obtainBinary env root options0 =
     bnd (prepare env root options0) (\<lambda>props.
     bnd (restoreCachedBuild env root options0 props) (\<lambda>options1.
     bnd (rebundleStep env root options1 props) (\<lambda>options.
     bnd (buildOrReuse env root options props) (\<lambda>built.
     ret (props, options, built)))))"

section \<open>The notification screen\<close>

text \<open>
  \<^verbatim>\<open>NotificationScreen.tsx\<close>. The notifications module and \<^verbatim>\<open>Alert\<close> are outside the
  file: what the module answers is given by \<open>notif_env\<close>, and \<^verbatim>\<open>Alert.alert\<close> is an event of
  the trace. A thrown value is kept with its string form, which is what the template
  \<^verbatim>\<open>${e}\<close> inserts.
\<close>

datatype thrown = Thrown (toString: string)

record permission =
  status :: string

datatype ui_event =
    GetPermissions
  | RequestPermissions
  | UnregisterForNotifications
  | AlertAlert string

record notif_env =
  getPermissionsAsync :: "thrown + permission"
  requestPermissionsAsync :: "thrown + permission"
  unregisterForNotificationsAsync :: "thrown + unit"

type_synonym 'a ui = "(ui_event, thrown, 'a) run"

text \<open>\<^verbatim>\<open>_obtainUserFacingNotifPermissionsAsync\<close>, lines 262-271.\<close>

definition obtainUserFacingNotifPermissionsAsync :: "notif_env \<Rightarrow> permission ui" where
  "obtainUserFacingNotifPermissionsAsync env =
     bnd (call GetPermissions (getPermissionsAsync env)) (\<lambda>permission.
     if status permission \<noteq> ''granted'' then
       bnd (call RequestPermissions (requestPermissionsAsync env)) (\<lambda>permission.
       bnd (if status permission \<noteq> ''granted'' then
              emit (AlertAlert (''We don'' @ [CHR 0x27] @ ''t have permission to present notifications.''))
            else ret ()) (\<lambda>_.
       ret permission))
     else ret permission)"

text \<open>\<^verbatim>\<open>_unregisterForNotificationsAsync\<close>, lines 380-386.\<close>

definition unregisterForNotificationsScreen :: "notif_env \<Rightarrow> unit ui" where
  "unregisterForNotificationsScreen env =
     catch (call UnregisterForNotifications (unregisterForNotificationsAsync env))
       (\<lambda>e. emit (AlertAlert (''An error occurred un-registering for notifications: '' @ toString e)))"

section \<open>The order of the steps\<close>

text \<open>Logging is not a step; the other events of a trace are its effects.\<close>

definition isLog :: "event \<Rightarrow> bool" where
  "isLog ev = (is_LogLog ev \<or> is_LogWarn ev \<or> is_Debug ev \<or> is_DebugError ev)"

definition effects :: "event list \<Rightarrow> event list" where
  "effects tr = filter (\<lambda>ev. \<not> isLog ev) tr"

text \<open>
  \<open>in_order ps es\<close>: the events \<open>es\<close> fill slots of the list \<open>ps\<close> from left to right;
  a slot takes at most one event and may stay empty. So no event is out of order and no
  slot is used twice.
\<close>

fun in_order :: "('a \<Rightarrow> bool) list \<Rightarrow> 'a list \<Rightarrow> bool" where
  "in_order ps [] = True"
| "in_order [] (e # es) = False"
| "in_order (p # ps) (e # es) = ((p e \<and> in_order ps es) \<or> in_order ps (e # es))"

text \<open>
  \<open>consumes ps m qs\<close>: the effects of the run \<open>m\<close> fill slots of \<open>ps\<close> in order and leave
  the slots \<open>qs\<close> free for what follows.
\<close>

definition consumes :: "(event \<Rightarrow> bool) list \<Rightarrow> 'a cli \<Rightarrow> (event \<Rightarrow> bool) list \<Rightarrow> bool" where
  "consumes ps m qs = (\<forall>es. in_order qs es \<longrightarrow> in_order ps (effects (fst m) @ es))"

text \<open>The slots of each step of the run, in the order of the source.\<close>

definition startupSlots :: "(event \<Rightarrow> bool) list" where
  "startupSlots = [is_SetNodeEnv, is_EnvLoad, is_LogExit, is_EnsureNativeProject,
     is_MaybePromptToSyncPods]"

definition resolveSlots :: "(event \<Rightarrow> bool) list" where
  "resolveSlots = [is_ResolveOptions]"

definition restoreSlots :: "(event \<Rightarrow> bool) list" where
  "restoreSlots = [\<lambda>ev. is_ExportArchive ev \<or> is_ResolveBuildCache ev]"

definition rebundleSlots :: "(event \<Rightarrow> bool) list" where
  "rebundleSlots = [is_GetAppId, is_GetContainerPath, is_RequireResolve, is_Spawn, is_ExistsSync,
     is_ExportEager]"

definition buildSlots :: "(event \<Rightarrow> bool) list" where
  "buildSlots = [is_ExportEager,
     \<lambda>ev. is_GetValidBinaryPath ev \<or> is_Archive ev \<or> is_Build ev,
     \<lambda>ev. is_ExportArchive ev \<or> is_GetAppBinaryPath ev]"

definition inspectSlots :: "(event \<Rightarrow> bool) list" where
  "inspectSlots = [is_EnsurePortAvailability, is_GetLaunchInfo]"

definition terminateSlots :: "bool \<Rightarrow> (event \<Rightarrow> bool) list" where
  "terminateSlots simulator = (if simulator then [is_SimctlTerminate] else [])"

definition bundlerSlots :: "(event \<Rightarrow> bool) list" where
  "bundlerSlots = [is_GetSchemesForIos, is_StartBundler]"

definition launchSlots :: "(event \<Rightarrow> bool) list" where
  "launchSlots = [is_LaunchApp]"

definition logOrStopSlots :: "(event \<Rightarrow> bool) list" where
  "logOrStopSlots = [\<lambda>ev. is_LogProjectLogsLocation ev \<or> is_ManagerStop ev]"

definition uploadSlots :: "(event \<Rightarrow> bool) list" where
  "uploadSlots = [is_UploadBuildCache]"

definition launchBinarySlots :: "bool \<Rightarrow> (event \<Rightarrow> bool) list" where
  "launchBinarySlots simulator =
     inspectSlots @ terminateSlots simulator @ bundlerSlots @ launchSlots @ logOrStopSlots @
     uploadSlots"

definition runSlots :: "bool \<Rightarrow> (event \<Rightarrow> bool) list" where
  "runSlots simulator =
     startupSlots @ resolveSlots @ restoreSlots @ rebundleSlots @ buildSlots @
     launchBinarySlots simulator"

section \<open>Observations on traces\<close>

text \<open>The calls made before and by the platform check.\<close>

definition isStartup :: "event \<Rightarrow> bool" where
  "isStartup ev =
     (case ev of SetNodeEnv _ \<Rightarrow> True | EnvLoad _ \<Rightarrow> True | LogExit _ \<Rightarrow> True | _ \<Rightarrow> False)"

text \<open>A fresh build is a call of \<^verbatim>\<open>XcodeBuild.buildAsync\<close> or \<^verbatim>\<open>XcodeBuild.archiveAsync\<close>.\<close>

definition isFreshBuild :: "event \<Rightarrow> bool" where
  "isFreshBuild ev = (is_Build ev \<or> is_Archive ev)"

text \<open>The calls that fetch from the build cache, build afresh, or upload to the cache.\<close>

definition isCacheOrBuild :: "event \<Rightarrow> bool" where
  "isCacheOrBuild ev = (is_ResolveBuildCache ev \<or> isFreshBuild ev \<or> is_UploadBuildCache ev)"

section \<open>Example environments\<close>

text \<open>
  A stand-in for \<^verbatim>\<open>path.join\<close> in the examples: the segments joined by a slash, not
  normalised.
\<close>

definition joinPaths :: "string list \<Rightarrow> string" where
  "joinPaths xs = (case xs of [] \<Rightarrow> ''.'' | x # ys \<Rightarrow> foldl (\<lambda>a b. a @ ''/'' @ b) x ys)"

definition simProps :: "string \<Rightarrow> props" where
  "simProps root = \<lparr>projectRoot = root, scheme = ''app'', isSimulator = True,
     buildCacheProvider = Some ''eas'', device_udid = ''U1'', port = 8081,
     shouldStartBundler = True\<rparr>"

text \<open>A Mac on which every collaborator succeeds; the target is a simulator.\<close>

definition okEnv :: env where
  "okEnv = \<lparr>
     process_platform = ''darwin'',
     path_join = joinPaths,
     JSON_stringify = (\<lambda>s. s),
     setNodeEnv = (\<lambda>_. Inr ()),
     env_load = (\<lambda>_. Inr ()),
     ensureNativeProjectAsync = (\<lambda>_ _. Inr False),
     maybePromptToSyncPodsAsync = (\<lambda>_. Inr ()),
     resolveOptionsAsync = (\<lambda>root _. Inr (simProps root)),
     exportArchiveAsync = (\<lambda>_ _. Inr ''app.ipa''),
     resolveBuildCache = (\<lambda>_ _ _. Inr None),
     getAppIdAsync = (\<lambda>_. Inr ''com.app''),
     getContainerPathAsync = (\<lambda>_ _. Inr (Some ''container.app'')),
     require_resolve = (\<lambda>m. Inr m),
     spawnAsync = (\<lambda>_ _. Inr ()),
     existsSync = (\<lambda>_. True),
     exportEagerAsync = (\<lambda>_ _. Inr ''{}''),
     getValidBinaryPathAsync = (\<lambda>b _. Inr b),
     archiveAsync = (\<lambda>_ _. Inr ''app.xcarchive''),
     buildAsync = (\<lambda>_ _. Inr ''output''),
     getAppBinaryPath = (\<lambda>_. Inr ''built.app''),
     ensurePortAvailabilityAsync = (\<lambda>_ _. Inr True),
     getLaunchInfoForBinaryAsync = (\<lambda>_. Inr \<lparr>bundleId = ''com.app'', schemes = [''app'']\<rparr>),
     simctlAsync = (\<lambda>_. Inr ()),
     getSchemesForIosAsync = (\<lambda>_. Inr (Some [''app''])),
     startBundlerAsync = (\<lambda>_ _ _ _. Inr 1),
     launchAppAsync = (\<lambda>_ _ _ _ _ _. Inr ()),
     stopAsync = (\<lambda>_. Inr ()),
     uploadBuildCache = (\<lambda>_ _ _ _ _. Inr ())\<rparr>"

definition debugOptions :: options where
  "debugOptions = \<lparr>configuration = ''Debug'', install = False, binary = None,
     withArchive = False, rebundle = False\<rparr>"

text \<open>The same Mac with a physical device as the target.\<close>

definition deviceProps :: "string \<Rightarrow> props" where
  "deviceProps root = (simProps root)\<lparr>isSimulator := False\<rparr>"

definition deviceEnv :: env where
  "deviceEnv = okEnv\<lparr>resolveOptionsAsync := (\<lambda>root _. Inr (deviceProps root))\<rparr>"

definition archiveOptions :: options where
  "archiveOptions = debugOptions\<lparr>withArchive := True\<rparr>"

text \<open>Permission is denied at first and granted on request; unregistering fails.\<close>

definition deniedThenGranted :: notif_env where
  "deniedThenGranted = \<lparr>
     getPermissionsAsync = Inr \<lparr>status = ''denied''\<rparr>,
     requestPermissionsAsync = Inr \<lparr>status = ''granted''\<rparr>,
     unregisterForNotificationsAsync = Inl (Thrown ''Error: not registered'')\<rparr>"

text \<open>Rebundling; a binary without its bundle; a simulator without the app.\<close>

definition rebundleOptions :: options where
  "rebundleOptions = debugOptions\<lparr>rebundle := True\<rparr>"

definition missingBundleEnv :: env where
  "missingBundleEnv = okEnv\<lparr>existsSync := (\<lambda>_. False)\<rparr>"

definition noContainerEnv :: env where
  "noContainerEnv = okEnv\<lparr>getContainerPathAsync := (\<lambda>_ _. Inr None)\<rparr>"

text \<open>A simulator on which the app is not running: terminating it fails.\<close>

definition terminateFailsEnv :: env where
  "terminateFailsEnv = okEnv\<lparr>simctlAsync := (\<lambda>_. Inl (Error ''invalid device''))\<rparr>"

text \<open>The port has become busy during the build.\<close>

definition portBusyEnv :: env where
  "portBusyEnv = okEnv\<lparr>ensurePortAvailabilityAsync := (\<lambda>_ _. Inr False)\<rparr>"


text \<open>The app cannot be installed on the simulator: the launch fails.\<close>

definition launchFailsEnv :: env where
  "launchFailsEnv = okEnv\<lparr>launchAppAsync := (\<lambda>_ _ _ _ _ _. Inl (Error ''install failed''))\<rparr>"

section \<open>Basic facts about runs\<close>

lemma bnd_Inl [simp]: "bnd (t, Inl e) f = (t, Inl e)"
  by (simp add: bnd_def)

lemma bnd_Inr [simp]: "bnd (t, Inr x) f = (t @ fst (f x), snd (f x))"
  by (simp add: bnd_def split: prod.splits)

lemma catch_Inl [simp]: "catch (t, Inl e) h = (t @ fst (h e), snd (h e))"
  by (simp add: catch_def split: prod.splits)

lemma catch_Inr [simp]: "catch (t, Inr x) h = (t, Inr x)"
  by (simp add: catch_def)

lemmas run_defs = ret_def throw_def call_def emit_def

lemma snd_bnd: "snd (bnd m f) = (case snd m of Inl e \<Rightarrow> Inl e | Inr x \<Rightarrow> snd (f x))"
  by (cases m) (auto simp: bnd_def split: sum.splits prod.splits)

lemma fst_bnd: "fst (bnd m f) = fst m @ (case snd m of Inl e \<Rightarrow> [] | Inr x \<Rightarrow> fst (f x))"
  by (cases m) (auto simp: bnd_def split: sum.splits prod.splits)

lemma bnd_eq_Inr_iff:
  "bnd m f = (t, Inr y) \<longleftrightarrow> (\<exists>t1 x t2. m = (t1, Inr x) \<and> f x = (t2, Inr y) \<and> t = t1 @ t2)"
  by (cases m) (auto simp: bnd_def split: sum.splits prod.splits)

lemma bnd_pair:
  "bnd (t, r) f = (case r of Inl e \<Rightarrow> (t, Inl e) | Inr x \<Rightarrow> (t @ fst (f x), snd (f x)))"
  by (cases r) simp_all

lemma catch_pair:
  "catch (t, r) h = (case r of Inl e \<Rightarrow> (t @ fst (h e), snd (h e)) | Inr x \<Rightarrow> (t, Inr x))"
  by (cases r) simp_all

lemma bnd_ret [simp]: "bnd (ret x) f = f x"
  by (simp add: ret_def)

lemma bnd_assoc: "bnd (bnd m f) g = bnd m (\<lambda>x. bnd (f x) g)"
proof (cases m)
  case (Pair t r)
  show ?thesis
  proof (cases r)
    case (Inl e)
    with Pair show ?thesis by simp
  next
    case (Inr x)
    obtain t' r' where fx: "f x = (t', r')" by (cases "f x")
    with Pair Inr show ?thesis by (cases r') simp_all
  qed
qed

lemma runIosAsync_halves:
  "runIosAsync env root options0 =
     bnd (obtainBinary env root options0) (\<lambda>(props, options, built).
       launchBinary env root options props built)"
  by (simp add: runIosAsync_def obtainBinary_def bnd_assoc)

lemmas step_defs = prepare_def assertPlatform_def Log_exit_def restoreCachedBuild_def
  findExistingBinary_def rebundleInto_def rebundleStep_def freshBuild_def buildOrReuse_def
  checkPort_def terminateApp_def startBundler_def launchApp_def logOrStop_def
  updateBuildCache_def launchBinary_def nodeEnvMode_def

lemmas js_defs = truthy_def or_else_def first_of_def

lemmas example_defs = okEnv_def simProps_def debugOptions_def joinPaths_def deviceEnv_def
  deviceProps_def archiveOptions_def

text \<open>The restore step assigns to \<^verbatim>\<open>options.binary\<close> only.\<close>

lemma restoreCachedBuild_keeps:
  "restoreCachedBuild env root options props = (t, Inr options1) \<Longrightarrow>
   rebundle options1 = rebundle options \<and> withArchive options1 = withArchive options \<and>
   configuration options1 = configuration options \<and> install options1 = install options"
  by (auto simp: restoreCachedBuild_def run_defs Let_def bnd_pair
           split: if_splits option.splits sum.splits)

section \<open>Facts about the order of the steps\<close>

lemma effects_append [simp]: "effects (xs @ ys) = effects xs @ effects ys"
  by (simp add: effects_def)

lemma effects_Nil [simp]: "effects [] = []"
  by (simp add: effects_def)

lemma in_order_weaken: "in_order ps es \<Longrightarrow> in_order (p # ps) es"
  by (cases es) simp_all

lemma in_order_skip: "in_order qs es \<Longrightarrow> in_order (ps @ qs) es"
  by (induction ps) (simp_all add: in_order_weaken)

lemma in_order_append:
  "in_order ps xs \<Longrightarrow> in_order qs ys \<Longrightarrow> in_order (ps @ qs) (xs @ ys)"
proof (induction ps xs rule: in_order.induct)
  case (1 ps)
  then show ?case by (simp add: in_order_skip)
next
  case (2 e es)
  then show ?case by simp
next
  case (3 p ps e es)
  then show ?case by auto
qed

lemma in_order_pad: "in_order ps es \<Longrightarrow> in_order (ps @ qs) es"
  using in_order_append [of ps es qs "[]"] by simp

lemma in_order_member: "in_order ps es \<Longrightarrow> e \<in> set es \<Longrightarrow> \<exists>p \<in> set ps. p e"
  by (induction ps es rule: in_order.induct) auto

lemmas slot_defs = startupSlots_def resolveSlots_def restoreSlots_def rebundleSlots_def
  buildSlots_def inspectSlots_def terminateSlots_def bundlerSlots_def launchSlots_def
  logOrStopSlots_def uploadSlots_def

lemma in_order_tl: "in_order ps (e # es) \<Longrightarrow> in_order ps es"
proof (induction ps)
  case Nil
  then show ?case by simp
next
  case (Cons p ps)
  then show ?case by (cases es) (auto simp: in_order_weaken)
qed

lemma in_order_drop: "in_order ps (xs @ es) \<Longrightarrow> in_order ps es"
  by (induction xs) (auto dest: in_order_tl)

subsection \<open>Rules for \<open>consumes\<close>\<close>

lemma consumes_in_order: "consumes ps m [] \<Longrightarrow> in_order ps (effects (fst m))"
  unfolding consumes_def by (drule spec [of _ "[]"]) simp

lemma consumes_skip: "consumes ps m qs \<Longrightarrow> consumes (p # ps) m qs"
  unfolding consumes_def by (simp add: in_order_weaken)

lemma consumes_ret: "consumes ps (ret x) ps"
  unfolding consumes_def by (simp add: ret_def)

lemma consumes_throw: "consumes ps (throw e) ps"
  unfolding consumes_def by (simp add: throw_def)

lemma consumes_log: "isLog ev \<Longrightarrow> consumes ps (emit ev) ps"
  unfolding consumes_def by (simp add: emit_def effects_def)

lemma consumes_call: "p ev \<Longrightarrow> \<not> isLog ev \<Longrightarrow> consumes (p # ps) (call ev r) ps"
  unfolding consumes_def by (simp add: call_def effects_def)

lemma consumes_emit: "p ev \<Longrightarrow> \<not> isLog ev \<Longrightarrow> consumes (p # ps) (emit ev) ps"
  unfolding consumes_def by (simp add: emit_def effects_def)

lemma consumes_bnd:
  assumes m: "consumes ps m qs" and f: "\<And>x. consumes qs (f x) rs"
  shows "consumes ps (bnd m f) rs"
  unfolding consumes_def
proof (intro allI impI)
  fix es assume es: "in_order rs es"
  show "in_order ps (effects (fst (bnd m f)) @ es)"
  proof (cases "snd m")
    case (Inl e)
    obtain x :: 'a where "x = x" by simp
    have "in_order qs (effects (fst (f x)) @ es)"
      using f es unfolding consumes_def by blast
    then have "in_order qs es" by (rule in_order_drop)
    with m Inl show ?thesis unfolding consumes_def by (simp add: fst_bnd)
  next
    case (Inr x)
    have "in_order qs (effects (fst (f x)) @ es)"
      using f es unfolding consumes_def by blast
    with m Inr show ?thesis unfolding consumes_def by (simp add: fst_bnd)
  qed
qed

lemma consumes_catch:
  assumes m: "consumes ps m qs" and h: "\<And>e. consumes qs (h e) qs"
  shows "consumes ps (catch m h) qs"
  unfolding consumes_def
proof (intro allI impI)
  fix es assume es: "in_order qs es"
  obtain t r where mr: "m = (t, r)" by (cases m)
  show "in_order ps (effects (fst (catch m h)) @ es)"
  proof (cases r)
    case (Inl e)
    have "in_order qs (effects (fst (h e)) @ es)"
      using h es unfolding consumes_def by blast
    with m mr Inl show ?thesis unfolding consumes_def by simp
  next
    case (Inr x)
    with m mr es show ?thesis unfolding consumes_def by simp
  qed
qed

lemma consumes_if:
  "consumes ps a qs \<Longrightarrow> consumes ps b qs \<Longrightarrow> consumes ps (if c then a else b) qs"
  by simp

lemma consumes_case_option:
  "consumes ps a qs \<Longrightarrow> (\<And>v. consumes ps (b v) qs) \<Longrightarrow>
   consumes ps (case x of None \<Rightarrow> a | Some v \<Rightarrow> b v) qs"
  by (cases x) simp_all

lemma consumes_case_prod:
  "(\<And>a b. consumes ps (f a b) qs) \<Longrightarrow> consumes ps (case x of (a, b) \<Rightarrow> f a b) qs"
  by (cases x) simp

subsection \<open>Normal form of a run: every bind starts with a call\<close>

lemma bnd_throw [simp]: "bnd (throw e) f = throw e"
  by (simp add: throw_def)

lemma bnd_if: "bnd (if c then a else b) f = (if c then bnd a f else bnd b f)"
  by simp

lemma bnd_case_option:
  "bnd (case x of None \<Rightarrow> a | Some v \<Rightarrow> b v) f =
     (case x of None \<Rightarrow> bnd a f | Some v \<Rightarrow> bnd (b v) f)"
  by (cases x) simp_all

lemma bnd_case_prod:
  "bnd (case x of (a, b) \<Rightarrow> g a b) f = (case x of (a, b) \<Rightarrow> bnd (g a b) f)"
  by (cases x) simp

lemma Log_exit_call: "Log_exit msg = call (LogExit msg) (Inl (ProcessExit msg))"
  by (simp add: Log_exit_def call_def)

lemmas bnd_normal = bnd_assoc bnd_ret bnd_throw bnd_if bnd_case_option bnd_case_prod Let_def
  prod.case

lemma consumes_call_bnd:
  "p ev \<Longrightarrow> \<not> isLog ev \<Longrightarrow> (\<And>x. consumes ps (f x) rs) \<Longrightarrow>
   consumes (p # ps) (bnd (call ev r) f) rs"
  by (rule consumes_bnd [OF consumes_call])

lemma consumes_emit_bnd:
  "p ev \<Longrightarrow> \<not> isLog ev \<Longrightarrow> (\<And>x. consumes ps (f x) rs) \<Longrightarrow>
   consumes (p # ps) (bnd (emit ev) f) rs"
  by (rule consumes_bnd [OF consumes_emit])

lemma consumes_log_bnd:
  "isLog ev \<Longrightarrow> (\<And>x. consumes ps (f x) rs) \<Longrightarrow> consumes ps (bnd (emit ev) f) rs"
  by (rule consumes_bnd [OF consumes_log])

lemma consumes_end: "consumes ps m qs \<Longrightarrow> consumes qs (ret ()) rs \<Longrightarrow> consumes ps m rs"
  unfolding consumes_def by (simp add: ret_def)

lemma consumes_call_end:
  "p ev \<Longrightarrow> \<not> isLog ev \<Longrightarrow> consumes ps (ret ()) rs \<Longrightarrow> consumes (p # ps) (call ev r) rs"
  by (rule consumes_end [OF consumes_call])

lemma consumes_log_end:
  "isLog ev \<Longrightarrow> consumes ps (ret ()) rs \<Longrightarrow> consumes ps (emit ev) rs"
  by (rule consumes_end [OF consumes_log])

lemma consumes_emit_end:
  "p ev \<Longrightarrow> \<not> isLog ev \<Longrightarrow> consumes ps (ret ()) rs \<Longrightarrow> consumes (p # ps) (emit ev) rs"
  by (rule consumes_end [OF consumes_emit])

subsection \<open>The steps fill their slots\<close>

lemma prepare_consumes:
  "consumes (is_SetNodeEnv # is_EnvLoad # is_LogExit # is_EnsureNativeProject #
             is_MaybePromptToSyncPods # is_ResolveOptions # rest)
     (prepare env root options) rest"
  unfolding prepare_def assertPlatform_def Log_exit_call
  apply (simp only: bnd_normal)
  apply (intro consumes_if conjI impI allI
         | (rule consumes_call_bnd, (simp; fail), (simp add: isLog_def; fail))
         | (rule consumes_call_end, (simp; fail), (simp add: isLog_def; fail))
         | (rule consumes_log_bnd, (simp add: isLog_def; fail))
         | (rule consumes_log_end, (simp add: isLog_def; fail))
         | rule consumes_ret
         | rule consumes_skip)+
  done

lemma restore_consumes:
  "consumes ((\<lambda>ev. is_ExportArchive ev \<or> is_ResolveBuildCache ev) # rest)
     (restoreCachedBuild env root options props) rest"
  unfolding restoreCachedBuild_def
  apply (simp only: bnd_normal)
  apply (intro consumes_if consumes_case_option conjI impI allI
         | (rule consumes_call_bnd, (simp; fail), (simp add: isLog_def; fail))
         | (rule consumes_call_end, (simp; fail), (simp add: isLog_def; fail))
         | (rule consumes_log_bnd, (simp add: isLog_def; fail))
         | (rule consumes_log_end, (simp add: isLog_def; fail))
         | rule consumes_ret
         | rule consumes_throw
         | rule consumes_skip)+
  done

lemma rebundle_consumes:
  "consumes (is_GetAppId # is_GetContainerPath # is_RequireResolve # is_Spawn # is_ExistsSync #
             is_ExportEager # rest)
     (rebundleStep env root options props) rest"
  unfolding rebundleStep_def findExistingBinary_def rebundleInto_def
  apply (simp only: bnd_normal)
  apply (intro consumes_if consumes_case_option conjI impI allI
         | (rule consumes_call_bnd, (simp; fail), (simp add: isLog_def; fail))
         | (rule consumes_call_end, (simp; fail), (simp add: isLog_def; fail))
         | (rule consumes_log_bnd, (simp add: isLog_def; fail))
         | (rule consumes_log_end, (simp add: isLog_def; fail))
         | rule consumes_ret
         | rule consumes_throw
         | rule consumes_skip)+
  done

lemma build_consumes:
  "consumes (is_ExportEager # (\<lambda>ev. is_GetValidBinaryPath ev \<or> is_Archive ev \<or> is_Build ev) #
             (\<lambda>ev. is_ExportArchive ev \<or> is_GetAppBinaryPath ev) # rest)
     (buildOrReuse env root options props) rest"
  unfolding buildOrReuse_def freshBuild_def
  apply (simp only: bnd_normal)
  apply (intro consumes_if consumes_case_option conjI impI allI
         | (rule consumes_call_bnd, (simp; fail), (simp add: isLog_def; fail))
         | (rule consumes_call_end, (simp; fail), (simp add: isLog_def; fail))
         | (rule consumes_log_bnd, (simp add: isLog_def; fail))
         | (rule consumes_log_end, (simp add: isLog_def; fail))
         | rule consumes_ret
         | rule consumes_throw
         | rule consumes_skip)+
  done

lemma consumes_catch_log_bnd:
  assumes "p ev" and "\<not> isLog ev" and "\<And>e. isLog (l e)" and "\<And>x. consumes ps (f x) rs"
  shows "consumes (p # ps) (bnd (catch (call ev r) (\<lambda>e. emit (l e))) f) rs"
proof (rule consumes_bnd)
  show "consumes (p # ps) (catch (call ev r) (\<lambda>e. emit (l e))) ps"
    by (rule consumes_catch [OF consumes_call]) (simp_all add: assms consumes_log)
  show "\<And>x. consumes ps (f x) rs" by (rule assms)
qed

lemma launchBinary_consumes:
  "consumes (is_EnsurePortAvailability # is_GetLaunchInfo # terminateSlots (isSimulator props0) @
             is_GetSchemesForIos # is_StartBundler # is_LaunchApp #
             (\<lambda>ev. is_LogProjectLogsLocation ev \<or> is_ManagerStop ev) # is_UploadBuildCache # rest)
     (launchBinary env root options props0 built) rest"
proof (cases "isSimulator props0")
  have upd: "\<And>v. isSimulator (props0\<lparr>shouldStartBundler := v\<rparr>) = isSimulator props0"
    by simp
  case True
  show ?thesis
    unfolding launchBinary_def checkPort_def terminateApp_def startBundler_def launchApp_def
      logOrStop_def updateBuildCache_def
    apply (simp only: bnd_normal cong: if_cong)
    apply (simp only: upd terminateSlots_def True if_True if_False append.simps
             cong: if_cong)
    apply (intro consumes_if consumes_case_option consumes_case_prod conjI impI allI
         | (rule consumes_call_bnd, (simp; fail), (simp add: isLog_def; fail))
         | (rule consumes_catch_log_bnd, (simp; fail), (simp add: isLog_def; fail), (simp add: isLog_def; fail))
         | (rule consumes_emit_bnd, (simp; fail), (simp add: isLog_def; fail))
         | (rule consumes_call_end, (simp; fail), (simp add: isLog_def; fail))
         | (rule consumes_emit_end, (simp; fail), (simp add: isLog_def; fail))
         | (rule consumes_log_bnd, (simp add: isLog_def; fail))
         | (rule consumes_log_end, (simp add: isLog_def; fail))
         | rule consumes_ret
         | rule consumes_throw
         | rule consumes_skip)+
    done
next
  have upd: "\<And>v. isSimulator (props0\<lparr>shouldStartBundler := v\<rparr>) = isSimulator props0"
    by simp
  case False
  show ?thesis
    unfolding launchBinary_def checkPort_def terminateApp_def startBundler_def launchApp_def
      logOrStop_def updateBuildCache_def
    apply (simp only: bnd_normal cong: if_cong)
    apply (simp only: upd terminateSlots_def False if_True if_False append.simps
             cong: if_cong)
    apply (intro consumes_if consumes_case_option consumes_case_prod conjI impI allI
         | (rule consumes_call_bnd, (simp; fail), (simp add: isLog_def; fail))
         | (rule consumes_emit_bnd, (simp; fail), (simp add: isLog_def; fail))
         | (rule consumes_call_end, (simp; fail), (simp add: isLog_def; fail))
         | (rule consumes_emit_end, (simp; fail), (simp add: isLog_def; fail))
         | (rule consumes_log_bnd, (simp add: isLog_def; fail))
         | (rule consumes_log_end, (simp add: isLog_def; fail))
         | rule consumes_ret
         | rule consumes_throw
         | rule consumes_skip)+
    done
qed

subsection \<open>The whole run fills the slots in order\<close>

lemma consumes_bnd_final:
  assumes m: "consumes ps m qs" and f: "\<And>x. snd m = Inr x \<Longrightarrow> consumes qs (f x) []"
  shows "consumes ps (bnd m f) []"
  unfolding consumes_def
proof (intro allI impI)
  fix es :: "event list" assume "in_order [] es"
  then have es: "es = []" by (cases es) simp_all
  have pre: "in_order ps (effects (fst m) @ es')" if "in_order qs es'" for es'
    using m that unfolding consumes_def by blast
  show "in_order ps (effects (fst (bnd m f)) @ es)"
  proof (cases "snd m")
    case (Inl e)
    with pre [of "[]"] es show ?thesis by (simp add: fst_bnd)
  next
    case (Inr x)
    have "in_order qs (effects (fst (f x)))"
      by (rule consumes_in_order [OF f [OF Inr]])
    from pre [OF this] Inr es show ?thesis by (simp add: fst_bnd)
  qed
qed

lemma prepare_result:
  "snd (prepare env root options) = Inr props \<Longrightarrow>
   resolveOptionsAsync env root options = Inr props"
  by (simp add: prepare_def snd_bnd run_defs Let_def split: sum.splits if_splits)

lemma prepare_slots:
  "consumes (startupSlots @ resolveSlots @ rest) (prepare env root options) rest"
  using prepare_consumes by (simp add: slot_defs)

lemma restore_slots:
  "consumes (restoreSlots @ rest) (restoreCachedBuild env root options props) rest"
  using restore_consumes by (simp add: slot_defs)

lemma rebundle_slots:
  "consumes (rebundleSlots @ rest) (rebundleStep env root options props) rest"
  using rebundle_consumes by (simp add: slot_defs)

lemma build_slots:
  "consumes (buildSlots @ rest) (buildOrReuse env root options props) rest"
  using build_consumes by (simp add: slot_defs)

lemma launchBinary_slots:
  "consumes (launchBinarySlots (isSimulator props)) (launchBinary env root options props built) []"
  using launchBinary_consumes [of props "[]"] by (simp add: launchBinarySlots_def slot_defs)

lemma run_consumes:
  assumes sim: "\<And>props. resolveOptionsAsync env root options = Inr props \<Longrightarrow> isSimulator props = sim"
  shows "consumes (runSlots sim) (runIosAsync env root options) []"
  unfolding runIosAsync_def runSlots_def
proof (rule consumes_bnd_final [OF prepare_slots])
  fix props assume "snd (prepare env root options) = Inr props"
  then have s: "isSimulator props = sim"
    using prepare_result sim by blast
  have "consumes (launchBinarySlots sim) (launchBinary env root options' props built) []"
    for options' built
    using launchBinary_slots [of props] s by simp
  then show "consumes (restoreSlots @ rebundleSlots @ buildSlots @ launchBinarySlots sim)
          (bnd (restoreCachedBuild env root options props)
            (\<lambda>options1. bnd (rebundleStep env root options1 props)
              (\<lambda>options. bnd (buildOrReuse env root options props)
                (launchBinary env root options props))))
          []"
    by (intro consumes_bnd [OF restore_slots] consumes_bnd [OF rebundle_slots]
          consumes_bnd [OF build_slots])
qed

lemma run_in_order:
  assumes "\<And>props. resolveOptionsAsync env root options = Inr props \<Longrightarrow> isSimulator props = sim"
  shows "in_order (runSlots sim) (effects (fst (runIosAsync env root options)))"
  by (rule consumes_in_order [OF run_consumes [OF assms]])

subsection \<open>What a step that succeeds has done\<close>

lemma list_ex_append_bnd:
  "list_ex P (fst (bnd m f)) \<longleftrightarrow>
     list_ex P (fst m) \<or> (\<exists>x. snd m = Inr x \<and> list_ex P (fst (f x)))"
  by (cases "snd m") (auto simp: fst_bnd)

lemma prepare_success:
  "prepare env root options = (t, Inr props) \<Longrightarrow>
   list_ex is_ResolveOptions t \<and> resolveOptionsAsync env root options = Inr props"
  by (auto simp: prepare_def assertPlatform_def Log_exit_def Let_def run_defs bnd_eq_Inr_iff
           split: if_splits)

lemma build_success:
  "buildOrReuse env root options props = (t, Inr built) \<Longrightarrow>
   list_ex (\<lambda>ev. is_GetValidBinaryPath ev \<or> is_Archive ev \<or> is_Build ev) t"
  by (auto simp: buildOrReuse_def freshBuild_def run_defs bnd_eq_Inr_iff
           split: if_splits option.splits prod.splits)

lemma checkPort_result:
  "checkPort env root props0 = (t, Inr props) \<Longrightarrow>
   isSimulator props = isSimulator props0 \<and> device_udid props = device_udid props0 \<and>
   buildCacheProvider props = buildCacheProvider props0 \<and> port props = port props0 \<and>
   (shouldStartBundler props \<longrightarrow> shouldStartBundler props0)"
  by (auto simp: checkPort_def run_defs bnd_eq_Inr_iff split: if_splits)

lemma terminate_success:
  "terminateApp env props info = (t, r) \<Longrightarrow>
   r = Inr () \<and> (isSimulator props \<longrightarrow> list_ex is_SimctlTerminate t)"
  by (auto simp: terminateApp_def run_defs catch_pair split: if_splits sum.splits)

lemma startBundler_success:
  "startBundler env root options props info = (t, Inr mgr) \<Longrightarrow> list_ex is_StartBundler t"
  by (auto simp: startBundler_def run_defs bnd_eq_Inr_iff split: if_splits)

lemma launchApp_success:
  "launchApp env binaryPath mgr props info = (t, Inr ()) \<Longrightarrow> list_ex is_LaunchApp t"
  by (auto simp: launchApp_def run_defs)

lemma logOrStop_success:
  "logOrStop env mgr props = (t, Inr ()) \<Longrightarrow>
   list_ex (\<lambda>ev. is_LogProjectLogsLocation ev \<or> is_ManagerStop ev) t"
  by (auto simp: logOrStop_def run_defs split: if_splits)

lemma launchBinary_success:
  assumes "launchBinary env root options props0 built = (t, Inr ())"
  shows "(isSimulator props0 \<longrightarrow> list_ex is_SimctlTerminate t) \<and> list_ex is_StartBundler t \<and>
         list_ex is_LaunchApp t \<and>
         list_ex (\<lambda>ev. is_LogProjectLogsLocation ev \<or> is_ManagerStop ev) t"
proof -
  obtain binaryPath upd archivePath where b: "built = (binaryPath, upd, archivePath)"
    by (cases built) auto
  from assms obtain t1 props t2 info t3 t4 mgr t5 t6 t7 where
    port: "checkPort env root props0 = (t1, Inr props)" and
    terminated: "terminateApp env props info = (t3, Inr ())" and
    start: "startBundler env root options props info = (t4, Inr mgr)" and
    launch: "launchApp env binaryPath mgr props info = (t5, Inr ())" and
    stop: "logOrStop env mgr props = (t6, Inr ())" and
    t: "t = t1 @ t2 @ t3 @ t4 @ t5 @ t6 @ t7"
    unfolding launchBinary_def b by (auto simp: bnd_eq_Inr_iff)
  have "isSimulator props = isSimulator props0"
    using checkPort_result [OF port] by simp
  then show ?thesis
    using terminate_success [OF terminated] startBundler_success [OF start] launchApp_success [OF launch]
      logOrStop_success [OF stop] t
    by auto
qed

subsection \<open>No slot for the termination on a device\<close>

lemma not_log_in_effects: "e \<in> set tr \<Longrightarrow> \<not> isLog e \<Longrightarrow> e \<in> set (effects tr)"
  by (simp add: effects_def)

lemma no_terminate_slot:
  assumes "in_order (runSlots False) (effects tr)"
  shows "\<not> list_ex is_SimctlTerminate tr"
proof
  assume "list_ex is_SimctlTerminate tr"
  then obtain e where e: "e \<in> set tr" "is_SimctlTerminate e"
    by (auto simp: list_ex_iff)
  then have "e \<in> set (effects tr)"
    by (auto intro!: not_log_in_effects simp: isLog_def)
  from in_order_member [OF assms this] e(2) show False
    by (auto simp: runSlots_def launchBinarySlots_def slot_defs)
qed

subsection \<open>A slot is used at most once\<close>

lemma in_order_filter: "in_order ps es \<Longrightarrow> in_order ps (filter q es)"
proof (induction ps es rule: in_order.induct)
  case (1 ps)
  then show ?case by simp
next
  case (2 e es)
  then show ?case by simp
next
  case (3 p ps e es)
  then show ?case by (auto simp: in_order_weaken)
qed

lemma in_order_restrict:
  "in_order ps es \<Longrightarrow> (\<forall>e \<in> set es. \<forall>p \<in> set ps. p e \<longrightarrow> r p) \<Longrightarrow>
   in_order (filter r ps) es"
proof (induction ps es rule: in_order.induct)
  case (1 ps)
  then show ?case by simp
next
  case (2 e es)
  then show ?case by simp
next
  case (3 p ps e es)
  then show ?case by (auto simp: in_order_weaken)
qed

lemma in_order_length: "in_order ps es \<Longrightarrow> length es \<le> length ps"
proof (induction ps es rule: in_order.induct)
  case (1 ps)
  then show ?case by simp
next
  case (2 e es)
  then show ?case by simp
next
  case (3 p ps e es)
  then show ?case by auto
qed

lemma filter_effects: "(\<And>e. q e \<Longrightarrow> \<not> isLog e) \<Longrightarrow> filter q (effects tr) = filter q tr"
  by (induction tr) (auto simp: effects_def)

text \<open>The slots of any run, whatever the option resolution answers.\<close>

lemma run_in_order_some:
  "\<exists>sim. in_order (runSlots sim) (effects (fst (runIosAsync env root options)))"
proof (cases "resolveOptionsAsync env root options")
  case (Inl e)
  then show ?thesis using run_in_order [of env root options False] by auto
next
  case (Inr props)
  then show ?thesis using run_in_order [of env root options "isSimulator props"] by auto
qed

lemma log_or_stop_once:
  "length (filter (\<lambda>ev. is_LogProjectLogsLocation ev \<or> is_ManagerStop ev)
     (fst (runIosAsync env root options))) \<le> 1"
proof -
  let ?q = "\<lambda>ev. is_LogProjectLogsLocation ev \<or> is_ManagerStop ev"
  let ?r = "\<lambda>p. p LogProjectLogsLocation \<or> p (ManagerStop 0)"
  let ?tr = "fst (runIosAsync env root options)"
  obtain sim where "in_order (runSlots sim) (effects ?tr)"
    using run_in_order_some by blast
  then have "in_order (runSlots sim) (filter ?q (effects ?tr))"
    by (rule in_order_filter)
  moreover have "filter ?q (effects ?tr) = filter ?q ?tr"
    by (rule filter_effects) (auto simp: isLog_def)
  ultimately have ord: "in_order (runSlots sim) (filter ?q ?tr)"
    by simp
  have "\<forall>e \<in> set (filter ?q ?tr). \<forall>p \<in> set (runSlots sim). p e \<longrightarrow> ?r p"
    by (auto simp: runSlots_def launchBinarySlots_def slot_defs)
  from in_order_restrict [OF ord this]
  have "in_order [?q] (filter ?q ?tr)"
    by (simp add: runSlots_def launchBinarySlots_def slot_defs)
  from in_order_length [OF this] show ?thesis by simp
qed

subsection \<open>The second half of the run, step by step\<close>

lemma launchBinary_unfold:
  "launchBinary env root options props0 (binaryPath, upd, archivePath) =
     bnd (checkPort env root props0) (\<lambda>props.
     bnd (call (GetLaunchInfo binaryPath) (getLaunchInfoForBinaryAsync env binaryPath)) (\<lambda>info.
     bnd (terminateApp env props info) (\<lambda>_.
     bnd (startBundler env root options props info) (\<lambda>mgr.
     bnd (launchApp env binaryPath mgr props info) (\<lambda>_.
     bnd (logOrStop env mgr props) (\<lambda>_.
     updateBuildCache env root options props binaryPath upd archivePath))))))"
  by (simp add: launchBinary_def)

lemma okEnv_obtainBinary:
  "obtainBinary (okEnv\<lparr>simctlAsync := f\<rparr>) ''/p'' debugOptions =
     ([SetNodeEnv ''development'', EnvLoad ''/p'', EnsureNativeProject ''/p'' False,
       ResolveOptions ''/p'', ResolveBuildCache ''/p'' ''eas'', Build None,
       GetAppBinaryPath ''output'', Debug [''Binary path:'', ''built.app'']],
      Inr (simProps ''/p'', debugOptions, ''built.app'', True, None))"
  by (simp add: obtainBinary_def example_defs step_defs run_defs js_defs Let_def)

lemma terminateApp_returns: "snd (terminateApp env props info) = Inr ()"
  by (cases "simctlAsync env [''terminate'', device_udid props, bundleId info]")
     (simp_all add: terminateApp_def run_defs)

lemma startBundler_headless:
  "StartBundler p h s \<in> set (fst (startBundler env root options props info)) \<Longrightarrow>
   h = (\<not> shouldStartBundler props)"
  by (cases "getSchemesForIosAsync env root")
     (auto simp: startBundler_def run_defs split: if_splits)

subsection \<open>Where the cache and the build are called\<close>

lemma build_flag:
  "buildOrReuse env root options props = (t, Inr (binaryPath, upd, archivePath)) \<Longrightarrow>
   upd = list_ex isFreshBuild t \<and> upd = (\<not> truthy (binary options)) \<and>
   (isSimulator props \<longrightarrow> archivePath = None)"
  by (auto simp: buildOrReuse_def freshBuild_def run_defs bnd_eq_Inr_iff truthy_def isFreshBuild_def
           split: if_splits option.splits prod.splits)

lemma restore_truthy:
  "truthy (binary options) \<Longrightarrow> restoreCachedBuild env root options props = ([], Inr options)"
  by (simp add: restoreCachedBuild_def run_defs split: option.splits)

lemma rebundle_truthy:
  "truthy (binary options) \<Longrightarrow> rebundleStep env root options props = (t, Inr options') \<Longrightarrow>
   options' = options"
  by (auto simp: rebundleStep_def findExistingBinary_def run_defs snd_bnd
           split: if_splits sum.splits)

lemma consumes_no_event:
  assumes c: "consumes ps m []" and q: "\<forall>p \<in> set ps. \<forall>e. q e \<longrightarrow> \<not> p e"
    and nl: "\<And>e. q e \<Longrightarrow> \<not> isLog e"
  shows "\<not> list_ex q (fst m)"
proof
  assume "list_ex q (fst m)"
  then obtain e where e: "e \<in> set (fst m)" "q e" by (auto simp: list_ex_iff)
  then have "e \<in> set (effects (fst m))" using nl by (simp add: effects_def)
  from in_order_member [OF consumes_in_order [OF c] this] q e(2) show False by blast
qed

lemma prepare_quiet: "\<not> list_ex isCacheOrBuild (fst (prepare env root options))"
  by (rule consumes_no_event [OF prepare_slots [of "[]"]])
     (auto simp: slot_defs isCacheOrBuild_def isFreshBuild_def isLog_def)

lemma rebundle_quiet: "\<not> list_ex isCacheOrBuild (fst (rebundleStep env root options props))"
  by (rule consumes_no_event [OF rebundle_slots [of "[]"]])
     (auto simp: slot_defs isCacheOrBuild_def isFreshBuild_def isLog_def)

lemma launchBinary_no_fetch_or_build:
  "\<not> list_ex (\<lambda>ev. is_ResolveBuildCache ev \<or> isFreshBuild ev)
      (fst (launchBinary env root options props built))"
  by (rule consumes_no_event [OF launchBinary_slots])
     (auto simp: launchBinarySlots_def slot_defs isFreshBuild_def isLog_def)

lemma in_order_mono:
  "in_order ps es \<Longrightarrow> list_all2 (\<lambda>p q. \<forall>e \<in> set es. p e \<longrightarrow> q e) ps qs \<Longrightarrow> in_order qs es"
proof (induction ps es arbitrary: qs rule: in_order.induct)
  case (1 ps)
  then show ?case by simp
next
  case (2 e es)
  then show ?case by simp
next
  case (3 p ps e es)
  from "3.prems"(2) obtain q qs' where qs: "qs = q # qs'"
    and pq: "\<forall>e' \<in> set (e # es). p e' \<longrightarrow> q e'"
    and rest: "list_all2 (\<lambda>p q. \<forall>e' \<in> set (e # es). p e' \<longrightarrow> q e') ps qs'"
    by (auto simp: list_all2_Cons1)
  have rest': "list_all2 (\<lambda>p q. \<forall>e' \<in> set es. p e' \<longrightarrow> q e') ps qs'"
    using rest by (rule list_all2_mono) auto
  from "3.prems"(1) have "(p e \<and> in_order ps es) \<or> in_order ps (e # es)" by simp
  then show ?case
  proof
    assume "p e \<and> in_order ps es"
    then show ?thesis using pq "3.IH"(1) [OF _ rest'] qs by simp
  next
    assume "in_order ps (e # es)"
    then show ?thesis using "3.IH"(2) [OF _ rest] qs by simp
  qed
qed

lemma cache_build_upload_order:
  "in_order [is_ResolveBuildCache, isFreshBuild, is_UploadBuildCache]
     (filter isCacheOrBuild (fst (runIosAsync env root options)))"
proof -
  let ?r = "\<lambda>p. p (ResolveBuildCache [] []) \<or> p (Build None) \<or> p (Archive None) \<or>
                 p (UploadBuildCache [] [] [] False)"
  let ?tr = "fst (runIosAsync env root options)"
  let ?es = "filter isCacheOrBuild ?tr"
  obtain sim where "in_order (runSlots sim) (effects ?tr)"
    using run_in_order_some by blast
  then have "in_order (runSlots sim) (filter isCacheOrBuild (effects ?tr))"
    by (rule in_order_filter)
  moreover have "filter isCacheOrBuild (effects ?tr) = ?es"
    by (rule filter_effects) (auto simp: isLog_def isCacheOrBuild_def isFreshBuild_def)
  ultimately have ord: "in_order (runSlots sim) ?es"
    by simp
  have "\<forall>e \<in> set ?es. \<forall>p \<in> set (runSlots sim). p e \<longrightarrow> ?r p"
    by (auto simp: runSlots_def launchBinarySlots_def slot_defs isCacheOrBuild_def
          isFreshBuild_def)
  from in_order_restrict [OF ord this]
  have "in_order [\<lambda>ev. is_ExportArchive ev \<or> is_ResolveBuildCache ev,
                  \<lambda>ev. is_GetValidBinaryPath ev \<or> is_Archive ev \<or> is_Build ev,
                  is_UploadBuildCache] ?es"
    by (simp add: runSlots_def launchBinarySlots_def slot_defs)
  then show ?thesis
    by (rule in_order_mono) (auto simp: isCacheOrBuild_def isFreshBuild_def)
qed

lemma upload_needs_flag:
  "list_ex is_UploadBuildCache (fst (launchBinary env root options props (binaryPath, upd, archivePath)))
   \<Longrightarrow> upd"
  by (auto simp: launchBinary_unfold list_ex_append_bnd checkPort_def terminateApp_def
        startBundler_def launchApp_def logOrStop_def updateBuildCache_def run_defs catch_pair
        split: if_splits sum.splits option.splits)

lemma upload_when_flagged:
  assumes "launchBinary env root options props (binaryPath, True, archivePath) = (t, Inr ())"
    and "buildCacheProvider props = Some provider"
  shows "UploadBuildCache root provider (or_else archivePath binaryPath)
           (\<not> isSimulator props \<and> truthy archivePath) \<in> set t"
  using assms unfolding launchBinary_unfold
  by (auto simp: bnd_eq_Inr_iff updateBuildCache_def run_defs Let_def
           dest!: checkPort_result split: option.splits)

lemma obtainBinary_steps:
  assumes "obtainBinary env root options = (t, Inr (props, options', built))"
  shows "\<exists>t1 t2 options1 t3 t4.
           prepare env root options = (t1, Inr props) \<and>
           restoreCachedBuild env root options props = (t2, Inr options1) \<and>
           rebundleStep env root options1 props = (t3, Inr options') \<and>
           buildOrReuse env root options' props = (t4, Inr built) \<and>
           t = t1 @ t2 @ t3 @ t4"
  using assms unfolding obtainBinary_def
  by (auto simp: bnd_eq_Inr_iff ret_def)

lemma restore_not_fresh:
  "\<not> list_ex (\<lambda>ev. isFreshBuild ev \<or> is_UploadBuildCache ev)
      (fst (restoreCachedBuild env root options props))"
  by (rule consumes_no_event [OF restore_slots [of "[]"]])
     (auto simp: slot_defs isFreshBuild_def isLog_def)

lemma prepare_not_fresh:
  "\<not> list_ex (\<lambda>ev. isFreshBuild ev \<or> is_UploadBuildCache ev) (fst (prepare env root options))"
  using prepare_quiet [of env root options]
  by (auto simp: list_ex_iff isCacheOrBuild_def)

lemma rebundle_not_fresh:
  "\<not> list_ex (\<lambda>ev. isFreshBuild ev \<or> is_UploadBuildCache ev)
      (fst (rebundleStep env root options props))"
  using rebundle_quiet [of env root options props]
  by (auto simp: list_ex_iff isCacheOrBuild_def)

lemma build_no_upload:
  "\<not> list_ex is_UploadBuildCache (fst (buildOrReuse env root options props))"
  by (rule consumes_no_event [OF build_slots [of "[]"]])
     (auto simp: slot_defs isLog_def)

lemma reuse_not_fresh:
  "truthy (binary options) \<Longrightarrow>
   \<not> list_ex (\<lambda>ev. isFreshBuild ev \<or> is_UploadBuildCache ev)
      (fst (buildOrReuse env root options props))"
  by (cases "getValidBinaryPathAsync env (the (binary options)) props")
     (auto simp: buildOrReuse_def run_defs truthy_def isFreshBuild_def split: option.splits)

lemma launch_not_fresh:
  "\<not> list_ex isFreshBuild (fst (launchBinary env root options props built))"
  using launchBinary_no_fetch_or_build [of env root options props built]
  by (auto simp: list_ex_iff)

lemma list_ex_or: "list_ex (\<lambda>x. P x \<or> Q x) xs \<longleftrightarrow> list_ex P xs \<or> list_ex Q xs"
  by (auto simp: list_ex_iff)

text \<open>With a binary to reuse, the rest of the run neither builds nor uploads.\<close>

lemma reuse_run_quiet:
  assumes "truthy (binary options1)"
  shows "\<not> list_ex (\<lambda>ev. isFreshBuild ev \<or> is_UploadBuildCache ev)
           (fst (bnd (rebundleStep env root options1 props) (\<lambda>options.
                 bnd (buildOrReuse env root options props) (launchBinary env root options props))))"
proof
  assume "list_ex (\<lambda>ev. isFreshBuild ev \<or> is_UploadBuildCache ev)
           (fst (bnd (rebundleStep env root options1 props) (\<lambda>options.
                 bnd (buildOrReuse env root options props) (launchBinary env root options props))))"
  then obtain options2 where
    reb: "snd (rebundleStep env root options1 props) = Inr options2" and
    ex: "list_ex (\<lambda>ev. isFreshBuild ev \<or> is_UploadBuildCache ev)
           (fst (bnd (buildOrReuse env root options2 props) (launchBinary env root options2 props)))"
    using rebundle_not_fresh [of env root options1 props]
    by (auto simp: list_ex_append_bnd)
  have same: "options2 = options1"
    using rebundle_truthy [OF assms, of env root props "fst (rebundleStep env root options1 props)" options2]
      reb by (simp add: prod_eq_iff)
  from ex reuse_not_fresh [OF assms, of env root props] same
  obtain binaryPath upd archivePath where
    b: "snd (buildOrReuse env root options1 props) = Inr (binaryPath, upd, archivePath)" and
    l: "list_ex (\<lambda>ev. isFreshBuild ev \<or> is_UploadBuildCache ev)
          (fst (launchBinary env root options1 props (binaryPath, upd, archivePath)))"
    by (auto simp: list_ex_append_bnd)
  from b have "buildOrReuse env root options1 props =
      (fst (buildOrReuse env root options1 props), Inr (binaryPath, upd, archivePath))"
    by (simp add: prod_eq_iff)
  from build_flag [OF this] assms have "\<not> upd"
    by blast
  then show False
    using l launch_not_fresh [of env root options1 props "(binaryPath, upd, archivePath)"]
      upload_needs_flag [of env root options1 props binaryPath upd archivePath]
    by (auto simp: list_ex_or)
qed

lemma upload_after_fresh:
  assumes "list_ex is_UploadBuildCache (fst (runIosAsync env root options))"
  shows "list_ex isFreshBuild (fst (runIosAsync env root options))"
proof -
  let ?ob = "obtainBinary env root options"
  have "\<not> list_ex is_UploadBuildCache (fst ?ob)"
    unfolding obtainBinary_def
    using prepare_not_fresh restore_not_fresh rebundle_not_fresh build_no_upload
    by (auto simp: list_ex_append_bnd list_ex_or ret_def)
  with assms obtain props options' binaryPath upd archivePath where
    ob: "snd ?ob = Inr (props, options', binaryPath, upd, archivePath)" and
    up: "list_ex is_UploadBuildCache
           (fst (launchBinary env root options' props (binaryPath, upd, archivePath)))"
    by (auto simp: runIosAsync_halves list_ex_append_bnd)
  have upd using upload_needs_flag [OF up] .
  from ob have "?ob = (fst ?ob, Inr (props, options', binaryPath, upd, archivePath))"
    by (simp add: prod_eq_iff)
  from obtainBinary_steps [OF this] obtain t1 t2 t3 t4 where
    b: "buildOrReuse env root options' props = (t4, Inr (binaryPath, upd, archivePath))" and
    t: "fst ?ob = t1 @ t2 @ t3 @ t4"
    by auto
  have "list_ex isFreshBuild t4"
    using build_flag [OF b] \<open>upd\<close> by simp
  then have "list_ex isFreshBuild (fst ?ob)"
    using t by simp
  then show ?thesis
    by (simp add: runIosAsync_halves list_ex_append_bnd)
qed

subsection \<open>Fetching before building, uploading after\<close>

lemma restore_fetch:
  assumes "\<not> truthy (binary options)" "\<not> withArchive options"
    "buildCacheProvider props = Some provider" "isSimulator props"
  shows "restoreCachedBuild env root options props =
           bnd (call (ResolveBuildCache root provider) (resolveBuildCache env root options provider))
             (\<lambda>localPath. ret (if truthy localPath then options\<lparr>binary := localPath\<rparr> else options))"
  using assms
  by (cases "resolveBuildCache env root options provider")
     (simp_all add: restoreCachedBuild_def run_defs)

lemma fetch_first:
  assumes h: "prepare env root options = (t0, Inr props) \<and> \<not> truthy (binary options) \<and>
      \<not> withArchive options \<and> buildCacheProvider props = Some provider \<and> isSimulator props"
  shows "\<exists>rest. fst (runIosAsync env root options) = t0 @ ResolveBuildCache root provider # rest"
proof -
  from h have r: "restoreCachedBuild env root options props =
           bnd (call (ResolveBuildCache root provider) (resolveBuildCache env root options provider))
             (\<lambda>localPath. ret (if truthy localPath then options\<lparr>binary := localPath\<rparr> else options))"
    by (intro restore_fetch) simp_all
  show ?thesis
    using h by (simp add: runIosAsync_def r fst_bnd call_def)
qed

lemma cache_hit_quiet:
  assumes h: "prepare env root options = (t0, Inr props) \<and> \<not> truthy (binary options) \<and>
      \<not> withArchive options \<and> buildCacheProvider props = Some provider \<and> isSimulator props"
    and hit: "resolveBuildCache env root options provider = Inr localPath \<and> truthy localPath"
  shows "\<not> list_ex (\<lambda>ev. isFreshBuild ev \<or> is_UploadBuildCache ev)
             (fst (runIosAsync env root options))"
proof -
  from h have r: "restoreCachedBuild env root options props =
           bnd (call (ResolveBuildCache root provider) (resolveBuildCache env root options provider))
             (\<lambda>localPath. ret (if truthy localPath then options\<lparr>binary := localPath\<rparr> else options))"
    by (intro restore_fetch) simp_all
  have t0: "\<not> list_ex (\<lambda>ev. isFreshBuild ev \<or> is_UploadBuildCache ev) t0"
    using prepare_not_fresh [of env root options] h by simp
  have "truthy (binary (options\<lparr>binary := localPath\<rparr>))"
    using hit by simp
  from reuse_run_quiet [OF this, of env root props] t0 h hit
  show ?thesis
    by (simp add: runIosAsync_def r run_defs isFreshBuild_def)
qed

lemma fresh_build_uploaded:
  assumes h: "prepare env root options = (t0, Inr props) \<and> \<not> truthy (binary options) \<and>
      \<not> withArchive options \<and> buildCacheProvider props = Some provider \<and> isSimulator props"
    and g: "obtainBinary env root options = (t, Inr (props, options', binaryPath, upd, archivePath)) \<and>
         list_ex isFreshBuild (fst (runIosAsync env root options)) \<and>
         snd (runIosAsync env root options) = Inr ()"
  shows "UploadBuildCache root provider binaryPath False \<in> set (fst (runIosAsync env root options))"
proof -
  from g obtain t1 t2 options1 t3 t4 where
    p: "prepare env root options = (t1, Inr props)" and
    r: "restoreCachedBuild env root options props = (t2, Inr options1)" and
    rb: "rebundleStep env root options1 props = (t3, Inr options')" and
    b: "buildOrReuse env root options' props = (t4, Inr (binaryPath, upd, archivePath))" and
    t: "t = t1 @ t2 @ t3 @ t4"
    using obtainBinary_steps [of env root options t props options' "(binaryPath, upd, archivePath)"]
    by blast
  let ?l = "launchBinary env root options' props (binaryPath, upd, archivePath)"
  have run: "runIosAsync env root options = (t @ fst ?l, snd ?l)"
    using g by (simp add: runIosAsync_halves)
  have "list_ex isFreshBuild t"
    using g run launch_not_fresh [of env root options' props "(binaryPath, upd, archivePath)"]
    by simp
  moreover have "\<not> list_ex isFreshBuild t1"
    using prepare_not_fresh [of env root options] p by (simp add: list_ex_or)
  moreover have "\<not> list_ex isFreshBuild t2"
    using restore_not_fresh [of env root options props] r by (simp add: list_ex_or)
  moreover have "\<not> list_ex isFreshBuild t3"
    using rebundle_not_fresh [of env root options1 props] rb by (simp add: list_ex_or)
  ultimately have "list_ex isFreshBuild t4"
    using t by simp
  then have upd: "upd" and ap: "archivePath = None"
    using build_flag [OF b] h by simp_all
  have "?l = (fst ?l, Inr ())"
    using g run by (simp add: prod_eq_iff)
  from upload_when_flagged [of env root options' props binaryPath archivePath "fst ?l" provider]
    this upd ap h
  show ?thesis
    by (simp add: run or_else_def)
qed

lemma supplied_binary_quiet:
  assumes tr: "truthy (binary options)"
  shows "\<not> list_ex (\<lambda>ev. isFreshBuild ev \<or> is_UploadBuildCache ev)
          (fst (runIosAsync env root options))"
    using prepare_not_fresh [of env root options] reuse_run_quiet [OF tr, of env root]
    by (auto simp: runIosAsync_def list_ex_append_bnd restore_truthy [OF tr])

lemma okEnv_run:
  "runIosAsync okEnv ''/p'' debugOptions =
     ([SetNodeEnv ''development'', EnvLoad ''/p'', EnsureNativeProject ''/p'' False,
       ResolveOptions ''/p'', ResolveBuildCache ''/p'' ''eas'', Build None,
       GetAppBinaryPath ''output'', Debug [''Binary path:'', ''built.app''],
       EnsurePortAvailability ''/p'', GetLaunchInfo ''built.app'',
       SimctlTerminate ''U1'' ''com.app'', GetSchemesForIos ''/p'',
       StartBundler 8081 False (Some ''app''),
       LaunchApp ''built.app'' 1 True True ''com.app'', LogProjectLogsLocation,
       UploadBuildCache ''/p'' ''eas'' ''built.app'' False],
      Inr ())"
  by (simp add: runIosAsync_def example_defs step_defs run_defs js_defs Let_def)

subsection \<open>A cache miss is followed by a fresh build\<close>

lemma build_not_truthy:
  "\<not> truthy (binary options) \<Longrightarrow>
   buildOrReuse env root options props =
     bnd (freshBuild env root options props) (\<lambda>(binaryPath, archivePath).
     bnd (emit (Debug [''Binary path:'', binaryPath])) (\<lambda>_.
     ret (binaryPath, True, archivePath)))"
  by (auto simp: buildOrReuse_def truthy_def bnd_normal split: option.splits)

lemma miss_run:
  assumes h: "prepare env root options = (t0, Inr props) \<and> \<not> truthy (binary options) \<and>
      \<not> withArchive options \<and> buildCacheProvider props = Some provider \<and> isSimulator props"
    and miss: "resolveBuildCache env root options provider = Inr localPath \<and> \<not> truthy localPath \<and>
      \<not> rebundle options"
  shows "runIosAsync env root options =
           (t0 @ [ResolveBuildCache root provider] @
              fst (bnd (buildOrReuse env root options props) (launchBinary env root options props)),
            snd (bnd (buildOrReuse env root options props) (launchBinary env root options props)))"
proof -
  from h have r: "restoreCachedBuild env root options props =
           bnd (call (ResolveBuildCache root provider) (resolveBuildCache env root options provider))
             (\<lambda>localPath. ret (if truthy localPath then options\<lparr>binary := localPath\<rparr> else options))"
    by (intro restore_fetch) simp_all
  show ?thesis
    using h miss by (simp add: runIosAsync_def r rebundleStep_def run_defs)
qed

lemma fetch_fails:
  assumes h: "prepare env root options = (t0, Inr props) \<and> \<not> truthy (binary options) \<and>
      \<not> withArchive options \<and> buildCacheProvider props = Some provider \<and> isSimulator props"
    and f: "resolveBuildCache env root options provider = Inl e"
  shows "runIosAsync env root options = (t0 @ [ResolveBuildCache root provider], Inl e)"
proof -
  from h have r: "restoreCachedBuild env root options props =
           bnd (call (ResolveBuildCache root provider) (resolveBuildCache env root options provider))
             (\<lambda>localPath. ret (if truthy localPath then options\<lparr>binary := localPath\<rparr> else options))"
    by (intro restore_fetch) simp_all
  show ?thesis
    using h f by (simp add: runIosAsync_def r run_defs)
qed

lemma miss_builds:
  assumes h: "prepare env root options = (t0, Inr props) \<and> \<not> truthy (binary options) \<and>
      \<not> withArchive options \<and> buildCacheProvider props = Some provider \<and> isSimulator props"
    and miss: "resolveBuildCache env root options provider = Inr localPath \<and> \<not> truthy localPath \<and>
      \<not> rebundle options"
    and cfg: "configuration options \<noteq> ''Release''"
  shows "\<exists>rest. fst (runIosAsync env root options) =
           t0 @ [ResolveBuildCache root provider, Build None] @ rest"
  using h cfg
  by (simp add: miss_run [OF h miss] build_not_truthy freshBuild_def fst_bnd run_defs)

lemma miss_export_fails:
  assumes h: "prepare env root options = (t0, Inr props) \<and> \<not> truthy (binary options) \<and>
      \<not> withArchive options \<and> buildCacheProvider props = Some provider \<and> isSimulator props"
    and miss: "resolveBuildCache env root options provider = Inr localPath \<and> \<not> truthy localPath \<and>
      \<not> rebundle options"
    and cfg: "configuration options = ''Release'' \<and>
      exportEagerAsync env root \<lparr>resetCache = None, dev = False, platform = ''ios'',
        assetsDest = None, bundleOutput = None\<rparr> = Inl e"
  shows "runIosAsync env root options =
           (t0 @ [ResolveBuildCache root provider,
                  ExportEager root \<lparr>resetCache = None, dev = False, platform = ''ios'',
                    assetsDest = None, bundleOutput = None\<rparr>], Inl e)"
  using h cfg
  by (simp add: miss_run [OF h miss] build_not_truthy freshBuild_def run_defs Let_def)

lemma miss_export_builds:
  assumes h: "prepare env root options = (t0, Inr props) \<and> \<not> truthy (binary options) \<and>
      \<not> withArchive options \<and> buildCacheProvider props = Some provider \<and> isSimulator props"
    and miss: "resolveBuildCache env root options provider = Inr localPath \<and> \<not> truthy localPath \<and>
      \<not> rebundle options"
    and cfg: "configuration options = ''Release'' \<and>
      exportEagerAsync env root \<lparr>resetCache = None, dev = False, platform = ''ios'',
        assetsDest = None, bundleOutput = None\<rparr> = Inr r"
  shows "\<exists>rest. fst (runIosAsync env root options) =
           t0 @ [ResolveBuildCache root provider,
                 ExportEager root \<lparr>resetCache = None, dev = False, platform = ''ios'',
                   assetsDest = None, bundleOutput = None\<rparr>,
                 Build (Some (JSON_stringify env r))] @ rest"
  using h cfg
  by (simp add: miss_run [OF h miss] build_not_truthy freshBuild_def fst_bnd run_defs Let_def)

lemma sim_build_result:
  assumes "buildOrReuse env root options props = (t, Inr (binaryPath, upd, archivePath))"
    and "\<not> truthy (binary options)" and "isSimulator props"
  shows "\<exists>eagerBundleOptions buildOutput.
           buildAsync env props eagerBundleOptions = Inr buildOutput \<and>
           getAppBinaryPath env buildOutput = Inr binaryPath \<and>
           Build eagerBundleOptions \<in> set t"
  using assms
  by (auto simp: build_not_truthy freshBuild_def run_defs bnd_eq_Inr_iff Let_def
           split: if_splits prod.splits)

lemma miss_builds_and_uploads:
  assumes h: "prepare env root options = (t0, Inr props) \<and> \<not> truthy (binary options) \<and>
      \<not> withArchive options \<and> buildCacheProvider props = Some provider \<and> isSimulator props"
    and miss: "resolveBuildCache env root options provider = Inr localPath \<and> \<not> truthy localPath \<and>
      \<not> rebundle options"
    and complete: "snd (runIosAsync env root options) = Inr ()"
  shows "\<exists>eagerBundleOptions buildOutput binaryPath.
           buildAsync env props eagerBundleOptions = Inr buildOutput \<and>
           getAppBinaryPath env buildOutput = Inr binaryPath \<and>
           Build eagerBundleOptions \<in> set (fst (runIosAsync env root options)) \<and>
           UploadBuildCache root provider binaryPath False
             \<in> set (fst (runIosAsync env root options))"
proof -
  let ?X = "bnd (buildOrReuse env root options props) (launchBinary env root options props)"
  have run: "runIosAsync env root options = (t0 @ [ResolveBuildCache root provider] @ fst ?X, snd ?X)"
    by (rule miss_run [OF h miss])
  with complete have "?X = (fst ?X, Inr ())"
    by (simp add: prod_eq_iff)
  then obtain t4 built t5 where
    b: "buildOrReuse env root options props = (t4, Inr built)" and
    l: "launchBinary env root options props built = (t5, Inr ())" and
    t: "fst ?X = t4 @ t5"
    unfolding bnd_eq_Inr_iff by blast
  obtain binaryPath upd archivePath where built: "built = (binaryPath, upd, archivePath)"
    by (cases built)
  from build_flag [OF b [unfolded built]] h have upd: upd and ap: "archivePath = None"
    by blast+
  from sim_build_result [OF b [unfolded built]] h obtain eagerBundleOptions buildOutput where
    bo: "buildAsync env props eagerBundleOptions = Inr buildOutput"
      "getAppBinaryPath env buildOutput = Inr binaryPath" "Build eagerBundleOptions \<in> set t4"
    by blast
  have "UploadBuildCache root provider (or_else archivePath binaryPath)
           (\<not> isSimulator props \<and> truthy archivePath) \<in> set t5"
    using l h upd by (intro upload_when_flagged) (simp_all add: built)
  then have "UploadBuildCache root provider binaryPath False \<in> set t5"
    using h ap by (simp add: or_else_def)
  with bo show ?thesis
    unfolding run t by auto
qed

subsection \<open>The export of the cached archive\<close>


subsection \<open>The termination writes no warning\<close>

lemma terminate_not_warned: "\<not> list_ex is_LogWarn (fst (terminateApp env props info))"
  by (cases "simctlAsync env [''terminate'', device_udid props, bundleId info]")
     (simp_all add: terminateApp_def run_defs)

section \<open>The notification screen: claims\<close>

text \<open>
  C8. Whatever error the unregister operation raises, the screen's handler catches it,
  shows an alert whose text ends with the error, and returns normally: nothing is
  rethrown.
\<close>

theorem unregister_error_alerted:
  "unregisterForNotificationsAsync env = Inl e \<Longrightarrow>
   unregisterForNotificationsScreen env =
     ([UnregisterForNotifications,
       AlertAlert (''An error occurred un-registering for notifications: '' @ toString e)],
      Inr ())"
  by (simp add: unregisterForNotificationsScreen_def run_defs)

theorem unregister_error_alerted_witness:
  "unregisterForNotificationsAsync deniedThenGranted = Inl (Thrown ''Error: not registered'') \<and>
   unregisterForNotificationsScreen deniedThenGranted =
     ([UnregisterForNotifications,
       AlertAlert ''An error occurred un-registering for notifications: Error: not registered''],
      Inr ())"
  using unregister_error_alerted [of deniedThenGranted "Thrown ''Error: not registered''"]
  by (simp add: deniedThenGranted_def)

text \<open>
  C10. The helper requests permissions exactly when the permissions it first got are not
  granted (and at most once), and its outcome is the latest answer: that of the request
  when one was made, the first one otherwise. When getting the permissions fails there is
  no request and the failure is the outcome.
\<close>

theorem obtain_permissions_request_iff:
  "(RequestPermissions \<in> set (fst (obtainUserFacingNotifPermissionsAsync env))) =
     (\<exists>p. getPermissionsAsync env = Inr p \<and> status p \<noteq> ''granted'') \<and>
   length (filter (\<lambda>ev. ev = RequestPermissions)
     (fst (obtainUserFacingNotifPermissionsAsync env))) \<le> 1 \<and>
   snd (obtainUserFacingNotifPermissionsAsync env) =
     (case getPermissionsAsync env of
        Inl e \<Rightarrow> Inl e
      | Inr p \<Rightarrow> if status p \<noteq> ''granted'' then requestPermissionsAsync env else Inr p)"
  by (cases "getPermissionsAsync env"; cases "requestPermissionsAsync env")
     (auto simp: obtainUserFacingNotifPermissionsAsync_def run_defs)

theorem obtain_permissions_request_iff_witness:
  "RequestPermissions \<in> set (fst (obtainUserFacingNotifPermissionsAsync deniedThenGranted)) \<and>
   snd (obtainUserFacingNotifPermissionsAsync deniedThenGranted) = Inr \<lparr>status = ''granted''\<rparr>"
  using obtain_permissions_request_iff [of deniedThenGranted]
  by (simp add: deniedThenGranted_def)

section \<open>The iOS run command: claims\<close>

text \<open>
  C9. On a platform other than macOS the command makes no call beyond setting the node
  environment, loading the environment files and \<^verbatim>\<open>Log.exit\<close>, and it never completes.
  When the first two calls succeed, the run is exactly these three calls and it ends in the
  exit with the message: options are not resolved, nothing is built, fetched or launched.
\<close>

theorem non_darwin_exits:
  assumes "process_platform env \<noteq> ''darwin''"
  shows "list_all isStartup (fst (runIosAsync env root options)) \<and>
         (\<exists>e. snd (runIosAsync env root options) = Inl e) \<and>
         (setNodeEnv env (nodeEnvMode options) = Inr () \<and> env_load env root = Inr () \<longrightarrow>
            runIosAsync env root options =
              ([SetNodeEnv (nodeEnvMode options), EnvLoad root,
                LogExit ''iOS apps can only be built on macOS devices. Use eas build -p ios to build in the cloud.''],
               Inl (ProcessExit ''iOS apps can only be built on macOS devices. Use eas build -p ios to build in the cloud.'')))"
  using assms
  by (cases "setNodeEnv env (nodeEnvMode options)"; cases "env_load env root")
     (simp_all add: runIosAsync_def prepare_def assertPlatform_def Log_exit_def run_defs
        isStartup_def)

theorem non_darwin_exits_witness:
  "process_platform (okEnv\<lparr>process_platform := ''linux''\<rparr>) \<noteq> ''darwin'' \<and>
   runIosAsync (okEnv\<lparr>process_platform := ''linux''\<rparr>) ''/p'' debugOptions =
     ([SetNodeEnv ''development'', EnvLoad ''/p'',
       LogExit ''iOS apps can only be built on macOS devices. Use eas build -p ios to build in the cloud.''],
      Inl (ProcessExit ''iOS apps can only be built on macOS devices. Use eas build -p ios to build in the cloud.''))"
  using non_darwin_exits [of "okEnv\<lparr>process_platform := ''linux''\<rparr>" "''/p''" debugOptions]
  by (simp add: example_defs nodeEnvMode_def)




text \<open>
  C3, as the code has it. In a rebundle that has found its binary and rebundled the config
  file, a missing \<^verbatim>\<open>main.jsbundle\<close> raises nothing: a warning naming the expected location
  is logged, the app is not exported again, and the run goes on to reuse the binary and
  launch it.
\<close>

theorem missing_bundle_output_warns:
  assumes prep: "prepare env root options = (t0, Inr props)"
    and restore: "restoreCachedBuild env root options props = (t1, Inr options1)"
    and reb: "rebundle options"
    and find: "findExistingBinary env root options1 props = (t2, Inr options2)"
    and bin: "binary options2 = Some b"
    and res: "require_resolve env ''expo-constants/package.json'' = Inr pkg"
    and args: "args = [path_join env [pkg, ''../scripts/getAppConfig.js''], root,
                       path_join env [b, ''EXConstants.bundle'']]"
    and spawn: "spawnAsync env ''node'' args = Inr ()"
    and out: "possibleBundleOutput = path_join env [b, ''main.jsbundle'']"
    and missing: "\<not> existsSync env possibleBundleOutput"
    and rest: "rest = bnd (buildOrReuse env root options2 props) (launchBinary env root options2 props)"
  shows "runIosAsync env root options =
           (t0 @ t1 @
            [LogWarn [''The --unstable-rebundle flag is experimental and may not work as expected.'']] @
            t2 @
            [LogLog [''Rebundling the Expo config file''],
             RequireResolve ''expo-constants/package.json'',
             Spawn ''node'' args,
             ExistsSync possibleBundleOutput,
             LogWarn [''Bundle output not found at expected location:'', possibleBundleOutput]] @
            fst rest,
            snd rest)"
proof -
  have "rebundle options1"
    using restoreCachedBuild_keeps [OF restore] reb by simp
  then show ?thesis
    using assms
    by (simp add: runIosAsync_def rebundleStep_def rebundleInto_def run_defs Let_def)
qed

text \<open>
  C3 as stated fails: on a simulator whose installed app has no \<^verbatim>\<open>main.jsbundle\<close>, the
  rebundling run logs the warning and completes.
\<close>

theorem missing_bundle_output_counterexample:
  "rebundle rebundleOptions \<and>
   \<not> existsSync missingBundleEnv ''container.app/main.jsbundle'' \<and>
   runIosAsync missingBundleEnv ''/p'' rebundleOptions =
     ([SetNodeEnv ''development'', EnvLoad ''/p'', EnsureNativeProject ''/p'' False,
       ResolveOptions ''/p'', ResolveBuildCache ''/p'' ''eas'',
       LogWarn [''The --unstable-rebundle flag is experimental and may not work as expected.''],
       GetAppId ''/p'', GetContainerPath ''U1'' ''com.app'',
       LogLog [''Re-using existing binary path:'', ''container.app''],
       LogLog [''Rebundling the Expo config file''],
       RequireResolve ''expo-constants/package.json'',
       Spawn ''node'' [''expo-constants/package.json/../scripts/getAppConfig.js'', ''/p'',
                       ''container.app/EXConstants.bundle''],
       ExistsSync ''container.app/main.jsbundle'',
       LogWarn [''Bundle output not found at expected location:'', ''container.app/main.jsbundle''],
       GetValidBinaryPath ''container.app'',
       LogLog [''Using custom binary path:'', ''container.app''],
       Debug [''Binary path:'', ''container.app''],
       EnsurePortAvailability ''/p'', GetLaunchInfo ''container.app'',
       SimctlTerminate ''U1'' ''com.app'',
       StartBundler 8081 False (Some ''app''),
       LaunchApp ''container.app'' 1 True True ''com.app'',
       LogProjectLogsLocation],
      Inr ())"
  by (simp add: missingBundleEnv_def rebundleOptions_def example_defs step_defs run_defs js_defs Let_def
        runIosAsync_def)

theorem missing_bundle_output_warns_witness:
  "rebundle rebundleOptions \<and>
   \<not> existsSync missingBundleEnv ''container.app/main.jsbundle'' \<and>
   snd (runIosAsync missingBundleEnv ''/p'' rebundleOptions) = Inr () \<and>
   LogWarn [''Bundle output not found at expected location:'', ''container.app/main.jsbundle'']
     \<in> set (fst (runIosAsync missingBundleEnv ''/p'' rebundleOptions)) \<and>
   \<not> list_ex is_ExportEager (fst (runIosAsync missingBundleEnv ''/p'' rebundleOptions))"
  using missing_bundle_output_warns [of missingBundleEnv "''/p''" rebundleOptions
      "[SetNodeEnv ''development'', EnvLoad ''/p'', EnsureNativeProject ''/p'' False,
        ResolveOptions ''/p'']"
      "simProps ''/p''" "[ResolveBuildCache ''/p'' ''eas'']" rebundleOptions
      "[GetAppId ''/p'', GetContainerPath ''U1'' ''com.app'',
        LogLog [''Re-using existing binary path:'', ''container.app'']]"
      "rebundleOptions\<lparr>binary := Some ''container.app''\<rparr>" "''container.app''"
      "''expo-constants/package.json''"
      "[''expo-constants/package.json/../scripts/getAppConfig.js'', ''/p'',
        ''container.app/EXConstants.bundle'']"
      "''container.app/main.jsbundle''"]
  by (simp add: missingBundleEnv_def rebundleOptions_def example_defs step_defs run_defs js_defs Let_def)

text \<open>
  C4, as the code has it. The check is made on \<^verbatim>\<open>options.binary\<close> after the restore step.
  With the rebundle option set, no binary given, the archive option not set and a physical
  device, the run throws the error about the \<^verbatim>\<open>--binary\<close> flag right after the warning
  about the experimental flag, before any rebundle call. On a simulator, when the restore
  step has left \<^verbatim>\<open>options.binary\<close> unset and no container is found for the resolved app id, the
  run throws the command error naming the id.
\<close>

theorem rebundle_without_binary_throws:
  assumes prep: "prepare env root options = (t0, Inr props)"
    and reb: "rebundle options"
  shows "(\<not> truthy (binary options) \<and> \<not> withArchive options \<and> \<not> isSimulator props \<longrightarrow>
            runIosAsync env root options =
              (t0 @ [LogWarn [''The --unstable-rebundle flag is experimental and may not work as expected.'']],
               Inl (Error ''Re-bundling on physical devices requires the --binary flag.''))) \<and>
         (\<forall>t1 options1 appId found.
            restoreCachedBuild env root options props = (t1, Inr options1) \<and>
            \<not> truthy (binary options1) \<and> isSimulator props \<and>
            getAppIdAsync env root = Inr appId \<and>
            getContainerPathAsync env (device_udid props) appId = Inr found \<and> \<not> truthy found \<longrightarrow>
            runIosAsync env root options =
              (t0 @ t1 @
               [LogWarn [''The --unstable-rebundle flag is experimental and may not work as expected.''],
                GetAppId root, GetContainerPath (device_udid props) appId],
               Inl (CommandError
                 (''Cannot rebundle because no --binary was provided and no existing binary was found on the device for ID: ''
                    @ appId @ ''.''))))"
proof (intro conjI allI impI)
  assume "\<not> truthy (binary options) \<and> \<not> withArchive options \<and> \<not> isSimulator props"
  then show "runIosAsync env root options =
              (t0 @ [LogWarn [''The --unstable-rebundle flag is experimental and may not work as expected.'']],
               Inl (Error ''Re-bundling on physical devices requires the --binary flag.''))"
    using prep reb
    by (simp add: runIosAsync_def restoreCachedBuild_def rebundleStep_def findExistingBinary_def
          run_defs split: option.splits)
next
  fix t1 options1 appId found
  assume h: "restoreCachedBuild env root options props = (t1, Inr options1) \<and>
            \<not> truthy (binary options1) \<and> isSimulator props \<and>
            getAppIdAsync env root = Inr appId \<and>
            getContainerPathAsync env (device_udid props) appId = Inr found \<and> \<not> truthy found"
  then have "rebundle options1"
    using restoreCachedBuild_keeps reb by blast
  then show "runIosAsync env root options =
              (t0 @ t1 @
               [LogWarn [''The --unstable-rebundle flag is experimental and may not work as expected.''],
                GetAppId root, GetContainerPath (device_udid props) appId],
               Inl (CommandError
                 (''Cannot rebundle because no --binary was provided and no existing binary was found on the device for ID: ''
                    @ appId @ ''.'')))"
    using prep h
    by (simp add: runIosAsync_def rebundleStep_def findExistingBinary_def run_defs)
qed

theorem rebundle_without_binary_throws_witness:
  "rebundle rebundleOptions \<and> \<not> truthy (binary rebundleOptions) \<and>
   \<not> withArchive rebundleOptions \<and> \<not> isSimulator (deviceProps ''/p'') \<and>
   runIosAsync deviceEnv ''/p'' rebundleOptions =
     ([SetNodeEnv ''development'', EnvLoad ''/p'', EnsureNativeProject ''/p'' False,
       ResolveOptions ''/p'',
       LogWarn [''The --unstable-rebundle flag is experimental and may not work as expected.'']],
      Inl (Error ''Re-bundling on physical devices requires the --binary flag.'')) \<and>
   runIosAsync noContainerEnv ''/p'' rebundleOptions =
     ([SetNodeEnv ''development'', EnvLoad ''/p'', EnsureNativeProject ''/p'' False,
       ResolveOptions ''/p'', ResolveBuildCache ''/p'' ''eas'',
       LogWarn [''The --unstable-rebundle flag is experimental and may not work as expected.''],
       GetAppId ''/p'', GetContainerPath ''U1'' ''com.app''],
      Inl (CommandError ''Cannot rebundle because no --binary was provided and no existing binary was found on the device for ID: com.app.''))"
  using rebundle_without_binary_throws [of deviceEnv "''/p''" rebundleOptions
      "[SetNodeEnv ''development'', EnvLoad ''/p'', EnsureNativeProject ''/p'' False,
        ResolveOptions ''/p'']" "deviceProps ''/p''"]
    rebundle_without_binary_throws [of noContainerEnv "''/p''" rebundleOptions
      "[SetNodeEnv ''development'', EnvLoad ''/p'', EnsureNativeProject ''/p'' False,
        ResolveOptions ''/p'']" "simProps ''/p''"]
  by (simp add: noContainerEnv_def rebundleOptions_def example_defs step_defs run_defs js_defs Let_def)

text \<open>
  C4 as stated fails: with the archive option set, the exported IPA has become
  \<^verbatim>\<open>options.binary\<close> by the time of the check, so the run on a physical device with no binary
  given rebundles into it and completes.
\<close>

theorem rebundle_without_binary_counterexample:
  "rebundle (archiveOptions\<lparr>rebundle := True\<rparr>) \<and>
   \<not> truthy (binary (archiveOptions\<lparr>rebundle := True\<rparr>)) \<and>
   resolveOptionsAsync deviceEnv ''/p'' (archiveOptions\<lparr>rebundle := True\<rparr>) = Inr (deviceProps ''/p'') \<and>
   \<not> isSimulator (deviceProps ''/p'') \<and>
   runIosAsync deviceEnv ''/p'' (archiveOptions\<lparr>rebundle := True\<rparr>) =
     ([SetNodeEnv ''development'', EnvLoad ''/p'', EnsureNativeProject ''/p'' False,
       ResolveOptions ''/p'',
       LogLog [''Found cached archive, exporting signed IPA...''],
       ExportArchive ''/p/.expo/archives/app.xcarchive'' ''/p'',
       LogWarn [''The --unstable-rebundle flag is experimental and may not work as expected.''],
       LogLog [''Rebundling the Expo config file''],
       RequireResolve ''expo-constants/package.json'',
       Spawn ''node'' [''expo-constants/package.json/../scripts/getAppConfig.js'', ''/p'',
                       ''app.ipa/EXConstants.bundle''],
       ExistsSync ''app.ipa/main.jsbundle'',
       LogLog [''Rebundling the app...''],
       ExportEager ''/p'' \<lparr>resetCache = Some False, dev = False, platform = ''ios'',
          assetsDest = Some ''app.ipa/assets'', bundleOutput = Some ''app.ipa/main.jsbundle''\<rparr>,
       GetValidBinaryPath ''app.ipa'',
       LogLog [''Using custom binary path:'', ''app.ipa''],
       Debug [''Binary path:'', ''app.ipa''],
       EnsurePortAvailability ''/p'', GetLaunchInfo ''app.ipa'',
       StartBundler 8081 False (Some ''app''),
       LaunchApp ''app.ipa'' 1 False True ''com.app'', LogProjectLogsLocation],
      Inr ())"
  by (simp add: runIosAsync_def example_defs step_defs run_defs js_defs Let_def)

text \<open>
  C2. In a run that completes, the calls other than logging fill the slots of
  \<open>runSlots\<close> from left to right, each slot at most once: first the start-up calls and
  the option resolution, then the restore (archive export or cache fetch), the rebundle
  calls, the build or the reuse of a binary, the port check and the launch information,
  the termination (a slot that exists on a simulator only), the start of the bundler,
  the launch, logging the logs location or stopping the bundler, and the upload. The
  resolution, a build or reuse, the start of the bundler, the launch and the log-or-stop
  all occur, and the termination occurs exactly when the target is a simulator.
\<close>

theorem steps_in_order:
  assumes run: "runIosAsync env root options = (tr, Inr ())"
  shows "\<exists>props. resolveOptionsAsync env root options = Inr props \<and>
           in_order (runSlots (isSimulator props)) (effects tr) \<and>
           list_ex is_ResolveOptions tr \<and>
           list_ex (\<lambda>ev. is_GetValidBinaryPath ev \<or> is_Archive ev \<or> is_Build ev) tr \<and>
           list_ex is_SimctlTerminate tr = isSimulator props \<and>
           list_ex is_StartBundler tr \<and>
           list_ex is_LaunchApp tr \<and>
           list_ex (\<lambda>ev. is_LogProjectLogsLocation ev \<or> is_ManagerStop ev) tr"
proof -
  from run obtain t1 props t2 options1 t3 options2 t4 built t5 where
    prep: "prepare env root options = (t1, Inr props)" and
    build: "buildOrReuse env root options2 props = (t4, Inr built)" and
    launch: "launchBinary env root options2 props built = (t5, Inr ())" and
    tr: "tr = t1 @ t2 @ t3 @ t4 @ t5"
    unfolding runIosAsync_def by (auto simp: bnd_eq_Inr_iff)
  have res: "resolveOptionsAsync env root options = Inr props"
    using prepare_success [OF prep] by simp
  have ord: "in_order (runSlots (isSimulator props)) (effects tr)"
    using run_in_order [of env root options "isSimulator props"] res run by simp
  have "list_ex is_SimctlTerminate tr = isSimulator props"
  proof (cases "isSimulator props")
    case True
    then show ?thesis using launchBinary_success [OF launch] tr by simp
  next
    case False
    then show ?thesis using no_terminate_slot ord by simp
  qed
  then show ?thesis
    using res ord prepare_success [OF prep] build_success [OF build]
      launchBinary_success [OF launch] tr
    by auto
qed

theorem steps_in_order_witness:
  "runIosAsync okEnv ''/p'' debugOptions =
     ([SetNodeEnv ''development'', EnvLoad ''/p'', EnsureNativeProject ''/p'' False,
       ResolveOptions ''/p'', ResolveBuildCache ''/p'' ''eas'', Build None,
       GetAppBinaryPath ''output'', Debug [''Binary path:'', ''built.app''],
       EnsurePortAvailability ''/p'', GetLaunchInfo ''built.app'',
       SimctlTerminate ''U1'' ''com.app'', GetSchemesForIos ''/p'',
       StartBundler 8081 False (Some ''app''),
       LaunchApp ''built.app'' 1 True True ''com.app'', LogProjectLogsLocation,
       UploadBuildCache ''/p'' ''eas'' ''built.app'' False],
      Inr ()) \<and>
   in_order (runSlots True)
     [SetNodeEnv ''development'', EnvLoad ''/p'', EnsureNativeProject ''/p'' False,
       ResolveOptions ''/p'', ResolveBuildCache ''/p'' ''eas'', Build None,
       GetAppBinaryPath ''output'',
       EnsurePortAvailability ''/p'', GetLaunchInfo ''built.app'',
       SimctlTerminate ''U1'' ''com.app'', GetSchemesForIos ''/p'',
       StartBundler 8081 False (Some ''app''),
       LaunchApp ''built.app'' 1 True True ''com.app'', LogProjectLogsLocation,
       UploadBuildCache ''/p'' ''eas'' ''built.app'' False]"
proof -
  have run: "runIosAsync okEnv ''/p'' debugOptions =
     ([SetNodeEnv ''development'', EnvLoad ''/p'', EnsureNativeProject ''/p'' False,
       ResolveOptions ''/p'', ResolveBuildCache ''/p'' ''eas'', Build None,
       GetAppBinaryPath ''output'', Debug [''Binary path:'', ''built.app''],
       EnsurePortAvailability ''/p'', GetLaunchInfo ''built.app'',
       SimctlTerminate ''U1'' ''com.app'', GetSchemesForIos ''/p'',
       StartBundler 8081 False (Some ''app''),
       LaunchApp ''built.app'' 1 True True ''com.app'', LogProjectLogsLocation,
       UploadBuildCache ''/p'' ''eas'' ''built.app'' False],
      Inr ())"
    by (simp add: runIosAsync_def example_defs step_defs run_defs js_defs Let_def)
  from steps_in_order [OF run] show ?thesis
    using run by (simp add: example_defs effects_def isLog_def)
qed

text \<open>
  C5, as the code has it. On a simulator, when the terminate call fails, the failure is
  caught: the run writes it to the debug log (\<^verbatim>\<open>debug\<close>, line 175) and goes on with the
  start of the bundler, the launch and the rest, exactly as after a successful termination.
  When the resolved target is a physical device, no run makes a terminate call. The
  termination step never writes a warning (\<^verbatim>\<open>Log.warn\<close>).
\<close>

theorem terminate_failure_is_caught:
  "(\<forall>t0 props0 options binaryPath upd archivePath t1 props info e rest.
      obtainBinary env root options0 = (t0, Inr (props0, options, binaryPath, upd, archivePath)) \<and>
      checkPort env root props0 = (t1, Inr props) \<and>
      getLaunchInfoForBinaryAsync env binaryPath = Inr info \<and>
      isSimulator props \<and>
      simctlAsync env [''terminate'', device_udid props, bundleId info] = Inl e \<and>
      rest = bnd (startBundler env root options props info) (\<lambda>mgr.
             bnd (launchApp env binaryPath mgr props info) (\<lambda>_.
             bnd (logOrStop env mgr props) (\<lambda>_.
             updateBuildCache env root options props binaryPath upd archivePath))) \<longrightarrow>
      runIosAsync env root options0 =
        (t0 @ t1 @
         [GetLaunchInfo binaryPath, SimctlTerminate (device_udid props) (bundleId info),
          DebugError ''Failed to terminate app (possibly because it was not running):'' e] @
         fst rest,
         snd rest)) \<and>
   (\<forall>props. resolveOptionsAsync env root options0 = Inr props \<and> \<not> isSimulator props \<longrightarrow>
      \<not> list_ex is_SimctlTerminate (fst (runIosAsync env root options0))) \<and>
   (\<forall>props info. \<not> list_ex is_LogWarn (fst (terminateApp env props info)))"
proof (intro conjI allI impI)
  fix t0 props0 options binaryPath upd archivePath t1 props info e rest
  assume h: "obtainBinary env root options0 = (t0, Inr (props0, options, binaryPath, upd, archivePath)) \<and>
      checkPort env root props0 = (t1, Inr props) \<and>
      getLaunchInfoForBinaryAsync env binaryPath = Inr info \<and>
      isSimulator props \<and>
      simctlAsync env [''terminate'', device_udid props, bundleId info] = Inl e \<and>
      rest = bnd (startBundler env root options props info) (\<lambda>mgr.
             bnd (launchApp env binaryPath mgr props info) (\<lambda>_.
             bnd (logOrStop env mgr props) (\<lambda>_.
             updateBuildCache env root options props binaryPath upd archivePath)))"
  then show "runIosAsync env root options0 =
        (t0 @ t1 @
         [GetLaunchInfo binaryPath, SimctlTerminate (device_udid props) (bundleId info),
          DebugError ''Failed to terminate app (possibly because it was not running):'' e] @
         fst rest,
         snd rest)"
    by (simp add: runIosAsync_halves launchBinary_unfold terminateApp_def run_defs)
next
  fix props
  assume h: "resolveOptionsAsync env root options0 = Inr props \<and> \<not> isSimulator props"
  then have "in_order (runSlots False) (effects (fst (runIosAsync env root options0)))"
    using run_in_order [of env root options0 False] by auto
  then show "\<not> list_ex is_SimctlTerminate (fst (runIosAsync env root options0))"
    by (rule no_terminate_slot)
next
  fix props info
  show "\<not> list_ex is_LogWarn (fst (terminateApp env props info))"
    by (rule terminate_not_warned)
qed

theorem terminate_failure_is_caught_witness:
  "isSimulator (simProps ''/p'') \<and>
   simctlAsync terminateFailsEnv [''terminate'', ''U1'', ''com.app''] = Inl (Error ''invalid device'') \<and>
   runIosAsync terminateFailsEnv ''/p'' debugOptions =
     ([SetNodeEnv ''development'', EnvLoad ''/p'', EnsureNativeProject ''/p'' False,
       ResolveOptions ''/p'', ResolveBuildCache ''/p'' ''eas'', Build None,
       GetAppBinaryPath ''output'', Debug [''Binary path:'', ''built.app''],
       EnsurePortAvailability ''/p'', GetLaunchInfo ''built.app'',
       SimctlTerminate ''U1'' ''com.app'',
       DebugError ''Failed to terminate app (possibly because it was not running):''
         (Error ''invalid device''),
       GetSchemesForIos ''/p'', StartBundler 8081 False (Some ''app''),
       LaunchApp ''built.app'' 1 True True ''com.app'', LogProjectLogsLocation,
       UploadBuildCache ''/p'' ''eas'' ''built.app'' False],
      Inr ()) \<and>
   \<not> isSimulator (deviceProps ''/p'') \<and>
   \<not> list_ex is_SimctlTerminate (fst (runIosAsync deviceEnv ''/p'' debugOptions))"
proof -
  have a: "runIosAsync terminateFailsEnv ''/p'' debugOptions =
     ([SetNodeEnv ''development'', EnvLoad ''/p'', EnsureNativeProject ''/p'' False,
       ResolveOptions ''/p'', ResolveBuildCache ''/p'' ''eas'', Build None,
       GetAppBinaryPath ''output'', Debug [''Binary path:'', ''built.app''],
       EnsurePortAvailability ''/p'', GetLaunchInfo ''built.app'',
       SimctlTerminate ''U1'' ''com.app'',
       DebugError ''Failed to terminate app (possibly because it was not running):''
         (Error ''invalid device''),
       GetSchemesForIos ''/p'', StartBundler 8081 False (Some ''app''),
       LaunchApp ''built.app'' 1 True True ''com.app'', LogProjectLogsLocation,
       UploadBuildCache ''/p'' ''eas'' ''built.app'' False],
      Inr ())"
    using terminate_failure_is_caught [of terminateFailsEnv "''/p''" debugOptions, THEN conjunct1,
        rule_format, of _ "simProps ''/p''" debugOptions "''built.app''" True None
          "[EnsurePortAvailability ''/p'']" "simProps ''/p''"
          "\<lparr>bundleId = ''com.app'', schemes = [''app'']\<rparr>" "Error ''invalid device''"]
    by (simp add: terminateFailsEnv_def okEnv_obtainBinary)
       (simp add: example_defs step_defs run_defs js_defs Let_def)
  have b: "\<not> list_ex is_SimctlTerminate (fst (runIosAsync deviceEnv ''/p'' debugOptions))"
    using terminate_failure_is_caught [of deviceEnv "''/p''" debugOptions, THEN conjunct2,
        THEN conjunct1, rule_format, of "deviceProps ''/p''"]
    by (simp add: example_defs)
  show ?thesis
    using a b by (simp add: terminateFailsEnv_def example_defs)
qed

text \<open>
  C5 as stated fails: on a simulator whose terminate call fails, the run completes and its
  trace holds the entry of the debug log for the failure, and no warning at all.
\<close>

theorem terminate_failure_not_warned_counterexample:
  "isSimulator (simProps ''/p'') \<and>
   resolveOptionsAsync terminateFailsEnv ''/p'' debugOptions = Inr (simProps ''/p'') \<and>
   simctlAsync terminateFailsEnv [''terminate'', ''U1'', ''com.app''] = Inl (Error ''invalid device'') \<and>
   runIosAsync terminateFailsEnv ''/p'' debugOptions =
     ([SetNodeEnv ''development'', EnvLoad ''/p'', EnsureNativeProject ''/p'' False,
       ResolveOptions ''/p'', ResolveBuildCache ''/p'' ''eas'', Build None,
       GetAppBinaryPath ''output'', Debug [''Binary path:'', ''built.app''],
       EnsurePortAvailability ''/p'', GetLaunchInfo ''built.app'',
       SimctlTerminate ''U1'' ''com.app'',
       DebugError ''Failed to terminate app (possibly because it was not running):''
         (Error ''invalid device''),
       GetSchemesForIos ''/p'', StartBundler 8081 False (Some ''app''),
       LaunchApp ''built.app'' 1 True True ''com.app'', LogProjectLogsLocation,
       UploadBuildCache ''/p'' ''eas'' ''built.app'' False],
      Inr ()) \<and>
   \<not> list_ex is_LogWarn (fst (runIosAsync terminateFailsEnv ''/p'' debugOptions))"
proof -
  have run: "runIosAsync terminateFailsEnv ''/p'' debugOptions =
     ([SetNodeEnv ''development'', EnvLoad ''/p'', EnsureNativeProject ''/p'' False,
       ResolveOptions ''/p'', ResolveBuildCache ''/p'' ''eas'', Build None,
       GetAppBinaryPath ''output'', Debug [''Binary path:'', ''built.app''],
       EnsurePortAvailability ''/p'', GetLaunchInfo ''built.app'',
       SimctlTerminate ''U1'' ''com.app'',
       DebugError ''Failed to terminate app (possibly because it was not running):''
         (Error ''invalid device''),
       GetSchemesForIos ''/p'', StartBundler 8081 False (Some ''app''),
       LaunchApp ''built.app'' 1 True True ''com.app'', LogProjectLogsLocation,
       UploadBuildCache ''/p'' ''eas'' ''built.app'' False],
      Inr ())"
    by (simp add: runIosAsync_def terminateFailsEnv_def example_defs step_defs run_defs js_defs
          Let_def)
  show ?thesis
    by (simp add: run) (simp add: terminateFailsEnv_def example_defs)
qed

text \<open>
  C7. A busy port does not end the run: the port check returns the options with
  \<^verbatim>\<open>shouldStartBundler\<close> set to false, and the bundler is then started with
  \<^verbatim>\<open>headless\<close> equal to the negation of that flag. Logging the logs location or stopping
  the manager is one call, chosen by the flag; in a run whose launch has succeeded it is
  what follows the launch, and no run makes two such calls.
\<close>

theorem log_or_stop_after_launch:
  "(\<forall>props0. shouldStartBundler props0 \<and> ensurePortAvailabilityAsync env root props0 = Inr False \<longrightarrow>
      checkPort env root props0 =
        ([EnsurePortAvailability root], Inr (props0\<lparr>shouldStartBundler := False\<rparr>))) \<and>
   (\<forall>options props info p h s.
      StartBundler p h s \<in> set (fst (startBundler env root options props info)) \<longrightarrow>
      h = (\<not> shouldStartBundler props)) \<and>
   (\<forall>mgr props.
      fst (logOrStop env mgr props) =
        [if shouldStartBundler props then LogProjectLogsLocation else ManagerStop mgr]) \<and>
   (\<forall>t0 props0 options binaryPath upd archivePath t1 props info t3 mgr rest.
      obtainBinary env root options0 = (t0, Inr (props0, options, binaryPath, upd, archivePath)) \<and>
      checkPort env root props0 = (t1, Inr props) \<and>
      getLaunchInfoForBinaryAsync env binaryPath = Inr info \<and>
      startBundler env root options props info = (t3, Inr mgr) \<and>
      launchAppAsync env binaryPath mgr (isSimulator props) (device_udid props)
        (shouldStartBundler props) (bundleId info) = Inr () \<and>
      rest = bnd (logOrStop env mgr props) (\<lambda>_.
             updateBuildCache env root options props binaryPath upd archivePath) \<longrightarrow>
      runIosAsync env root options0 =
        (t0 @ t1 @ [GetLaunchInfo binaryPath] @ fst (terminateApp env props info) @ t3 @
         [LaunchApp binaryPath mgr (isSimulator props) (shouldStartBundler props) (bundleId info)] @
         fst rest,
         snd rest)) \<and>
   length (filter (\<lambda>ev. is_LogProjectLogsLocation ev \<or> is_ManagerStop ev)
     (fst (runIosAsync env root options0))) \<le> 1"
proof (intro conjI allI impI)
  fix props0
  assume "shouldStartBundler props0 \<and> ensurePortAvailabilityAsync env root props0 = Inr False"
  then show "checkPort env root props0 =
        ([EnsurePortAvailability root], Inr (props0\<lparr>shouldStartBundler := False\<rparr>))"
    by (simp add: checkPort_def run_defs)
next
  fix options props info p h s
  assume "StartBundler p h s \<in> set (fst (startBundler env root options props info))"
  then show "h = (\<not> shouldStartBundler props)"
    by (rule startBundler_headless)
next
  fix mgr props
  show "fst (logOrStop env mgr props) =
        [if shouldStartBundler props then LogProjectLogsLocation else ManagerStop mgr]"
    by (simp add: logOrStop_def run_defs)
next
  fix t0 props0 options binaryPath upd archivePath t1 props info t3 mgr rest
  assume h: "obtainBinary env root options0 = (t0, Inr (props0, options, binaryPath, upd, archivePath)) \<and>
      checkPort env root props0 = (t1, Inr props) \<and>
      getLaunchInfoForBinaryAsync env binaryPath = Inr info \<and>
      startBundler env root options props info = (t3, Inr mgr) \<and>
      launchAppAsync env binaryPath mgr (isSimulator props) (device_udid props)
        (shouldStartBundler props) (bundleId info) = Inr () \<and>
      rest = bnd (logOrStop env mgr props) (\<lambda>_.
             updateBuildCache env root options props binaryPath upd archivePath)"
  obtain t2 where t2: "terminateApp env props info = (t2, Inr ())"
    using terminateApp_returns [of env props info] by (cases "terminateApp env props info") auto
  with h show "runIosAsync env root options0 =
        (t0 @ t1 @ [GetLaunchInfo binaryPath] @ fst (terminateApp env props info) @ t3 @
         [LaunchApp binaryPath mgr (isSimulator props) (shouldStartBundler props) (bundleId info)] @
         fst rest,
         snd rest)"
    by (simp add: runIosAsync_halves launchBinary_unfold launchApp_def run_defs)
next
  show "length (filter (\<lambda>ev. is_LogProjectLogsLocation ev \<or> is_ManagerStop ev)
     (fst (runIosAsync env root options0))) \<le> 1"
    by (rule log_or_stop_once)
qed

theorem log_or_stop_after_launch_witness:
  "shouldStartBundler (simProps ''/p'') \<and>
   ensurePortAvailabilityAsync portBusyEnv ''/p'' (simProps ''/p'') = Inr False \<and>
   checkPort portBusyEnv ''/p'' (simProps ''/p'') =
     ([EnsurePortAvailability ''/p''], Inr ((simProps ''/p'')\<lparr>shouldStartBundler := False\<rparr>)) \<and>
   runIosAsync portBusyEnv ''/p'' debugOptions =
     ([SetNodeEnv ''development'', EnvLoad ''/p'', EnsureNativeProject ''/p'' False,
       ResolveOptions ''/p'', ResolveBuildCache ''/p'' ''eas'', Build None,
       GetAppBinaryPath ''output'', Debug [''Binary path:'', ''built.app''],
       EnsurePortAvailability ''/p'', GetLaunchInfo ''built.app'',
       SimctlTerminate ''U1'' ''com.app'', GetSchemesForIos ''/p'',
       StartBundler 8081 True (Some ''app''),
       LaunchApp ''built.app'' 1 True False ''com.app'', ManagerStop 1,
       UploadBuildCache ''/p'' ''eas'' ''built.app'' False],
      Inr ())"
proof -
  have a: "checkPort portBusyEnv ''/p'' (simProps ''/p'') =
     ([EnsurePortAvailability ''/p''], Inr ((simProps ''/p'')\<lparr>shouldStartBundler := False\<rparr>))"
    using log_or_stop_after_launch [of portBusyEnv "''/p''" debugOptions, THEN conjunct1,
        rule_format, of "simProps ''/p''"]
    by (simp add: portBusyEnv_def example_defs)
  have ob: "obtainBinary portBusyEnv ''/p'' debugOptions =
     ([SetNodeEnv ''development'', EnvLoad ''/p'', EnsureNativeProject ''/p'' False,
       ResolveOptions ''/p'', ResolveBuildCache ''/p'' ''eas'', Build None,
       GetAppBinaryPath ''output'', Debug [''Binary path:'', ''built.app'']],
      Inr (simProps ''/p'', debugOptions, ''built.app'', True, None))"
    by (simp add: portBusyEnv_def obtainBinary_def example_defs step_defs run_defs js_defs Let_def)
  have b: "runIosAsync portBusyEnv ''/p'' debugOptions =
     ([SetNodeEnv ''development'', EnvLoad ''/p'', EnsureNativeProject ''/p'' False,
       ResolveOptions ''/p'', ResolveBuildCache ''/p'' ''eas'', Build None,
       GetAppBinaryPath ''output'', Debug [''Binary path:'', ''built.app''],
       EnsurePortAvailability ''/p'', GetLaunchInfo ''built.app'',
       SimctlTerminate ''U1'' ''com.app'', GetSchemesForIos ''/p'',
       StartBundler 8081 True (Some ''app''),
       LaunchApp ''built.app'' 1 True False ''com.app'', ManagerStop 1,
       UploadBuildCache ''/p'' ''eas'' ''built.app'' False],
      Inr ())"
    using log_or_stop_after_launch [of portBusyEnv "''/p''" debugOptions,
        THEN conjunct2, THEN conjunct2, THEN conjunct2, THEN conjunct1,
        rule_format, of _ "simProps ''/p''" debugOptions "''built.app''" True None
          "[EnsurePortAvailability ''/p'']" "(simProps ''/p'')\<lparr>shouldStartBundler := False\<rparr>"
          "\<lparr>bundleId = ''com.app'', schemes = [''app'']\<rparr>"
          "[GetSchemesForIos ''/p'', StartBundler 8081 True (Some ''app'')]" 1] ob a
    by (simp add: portBusyEnv_def)
       (simp add: example_defs step_defs run_defs js_defs Let_def)
  show ?thesis
    using a b by (simp add: portBusyEnv_def example_defs)
qed

text \<open>
  C1, as the code has it. In a run that has resolved its options, with no binary given, the
  archive option not set, a cache provider configured and a simulator as target, the first
  call after the option resolution is the fetch from the build cache. When the fetch
  fails, the run ends there with that error. When it returns a path, nothing is built and
  nothing is uploaded. When it returns no path and the rebundle option is not set, the run
  falls back to a fresh build: the next call is \<^verbatim>\<open>XcodeBuild.buildAsync\<close>, in a Release
  configuration after the eager export, whose failure ends the run; and when that run
  completes, it has uploaded to the provider the path of the binary that the build produced.
  Whenever such a run completes and has built afresh, the path that the build step returned
  is uploaded to the provider.
  For every run whatever: fetch, fresh build and upload come in this order and at most
  once each; an upload is made only in a run that has built afresh; and a run that was
  given a binary neither builds nor uploads.
\<close>

theorem cache_fetch_build_upload:
  "(\<forall>t0 props provider.
      prepare env root options = (t0, Inr props) \<and> \<not> truthy (binary options) \<and>
      \<not> withArchive options \<and> buildCacheProvider props = Some provider \<and> isSimulator props \<longrightarrow>
      (\<exists>rest. fst (runIosAsync env root options) = t0 @ ResolveBuildCache root provider # rest) \<and>
      (\<forall>e. resolveBuildCache env root options provider = Inl e \<longrightarrow>
         runIosAsync env root options = (t0 @ [ResolveBuildCache root provider], Inl e)) \<and>
      (\<forall>localPath.
         resolveBuildCache env root options provider = Inr localPath \<and> truthy localPath \<longrightarrow>
         \<not> list_ex (\<lambda>ev. isFreshBuild ev \<or> is_UploadBuildCache ev)
             (fst (runIosAsync env root options))) \<and>
      (\<forall>localPath.
         resolveBuildCache env root options provider = Inr localPath \<and> \<not> truthy localPath \<and>
         \<not> rebundle options \<longrightarrow>
         (configuration options \<noteq> ''Release'' \<longrightarrow>
            (\<exists>rest. fst (runIosAsync env root options) =
               t0 @ [ResolveBuildCache root provider, Build None] @ rest)) \<and>
         (\<forall>e. configuration options = ''Release'' \<and>
            exportEagerAsync env root \<lparr>resetCache = None, dev = False, platform = ''ios'',
              assetsDest = None, bundleOutput = None\<rparr> = Inl e \<longrightarrow>
            runIosAsync env root options =
              (t0 @ [ResolveBuildCache root provider,
                     ExportEager root \<lparr>resetCache = None, dev = False, platform = ''ios'',
                       assetsDest = None, bundleOutput = None\<rparr>],
               Inl e)) \<and>
         (\<forall>r. configuration options = ''Release'' \<and>
            exportEagerAsync env root \<lparr>resetCache = None, dev = False, platform = ''ios'',
              assetsDest = None, bundleOutput = None\<rparr> = Inr r \<longrightarrow>
            (\<exists>rest. fst (runIosAsync env root options) =
               t0 @ [ResolveBuildCache root provider,
                     ExportEager root \<lparr>resetCache = None, dev = False, platform = ''ios'',
                       assetsDest = None, bundleOutput = None\<rparr>,
                     Build (Some (JSON_stringify env r))] @ rest)) \<and>
         (snd (runIosAsync env root options) = Inr () \<longrightarrow>
            (\<exists>eagerBundleOptions buildOutput binaryPath.
               buildAsync env props eagerBundleOptions = Inr buildOutput \<and>
               getAppBinaryPath env buildOutput = Inr binaryPath \<and>
               Build eagerBundleOptions \<in> set (fst (runIosAsync env root options)) \<and>
               UploadBuildCache root provider binaryPath False
                 \<in> set (fst (runIosAsync env root options))))) \<and>
      (\<forall>t options' binaryPath upd archivePath.
         obtainBinary env root options = (t, Inr (props, options', binaryPath, upd, archivePath)) \<and>
         list_ex isFreshBuild (fst (runIosAsync env root options)) \<and>
         snd (runIosAsync env root options) = Inr () \<longrightarrow>
         UploadBuildCache root provider binaryPath False
           \<in> set (fst (runIosAsync env root options)))) \<and>
   in_order [is_ResolveBuildCache, isFreshBuild, is_UploadBuildCache]
     (filter isCacheOrBuild (fst (runIosAsync env root options))) \<and>
   (list_ex is_UploadBuildCache (fst (runIosAsync env root options)) \<longrightarrow>
      list_ex isFreshBuild (fst (runIosAsync env root options))) \<and>
   (truthy (binary options) \<longrightarrow>
      \<not> list_ex (\<lambda>ev. isFreshBuild ev \<or> is_UploadBuildCache ev)
          (fst (runIosAsync env root options)))"
proof (intro conjI allI impI)
  fix t0 props provider
  assume "prepare env root options = (t0, Inr props) \<and> \<not> truthy (binary options) \<and>
      \<not> withArchive options \<and> buildCacheProvider props = Some provider \<and> isSimulator props"
  then show "\<exists>rest. fst (runIosAsync env root options) = t0 @ ResolveBuildCache root provider # rest"
    by (rule fetch_first)
next
  fix t0 props provider e
  assume "prepare env root options = (t0, Inr props) \<and> \<not> truthy (binary options) \<and>
      \<not> withArchive options \<and> buildCacheProvider props = Some provider \<and> isSimulator props"
    and "resolveBuildCache env root options provider = Inl e"
  then show "runIosAsync env root options = (t0 @ [ResolveBuildCache root provider], Inl e)"
    by (rule fetch_fails)
next
  fix t0 props provider localPath
  assume "prepare env root options = (t0, Inr props) \<and> \<not> truthy (binary options) \<and>
      \<not> withArchive options \<and> buildCacheProvider props = Some provider \<and> isSimulator props"
    and "resolveBuildCache env root options provider = Inr localPath \<and> truthy localPath"
  then show "\<not> list_ex (\<lambda>ev. isFreshBuild ev \<or> is_UploadBuildCache ev)
             (fst (runIosAsync env root options))"
    by (rule cache_hit_quiet)
next
  fix t0 props provider localPath
  assume "prepare env root options = (t0, Inr props) \<and> \<not> truthy (binary options) \<and>
      \<not> withArchive options \<and> buildCacheProvider props = Some provider \<and> isSimulator props"
    and "resolveBuildCache env root options provider = Inr localPath \<and> \<not> truthy localPath \<and>
         \<not> rebundle options"
    and "configuration options \<noteq> ''Release''"
  then show "\<exists>rest. fst (runIosAsync env root options) =
               t0 @ [ResolveBuildCache root provider, Build None] @ rest"
    by (rule miss_builds)
next
  fix t0 props provider localPath e
  assume "prepare env root options = (t0, Inr props) \<and> \<not> truthy (binary options) \<and>
      \<not> withArchive options \<and> buildCacheProvider props = Some provider \<and> isSimulator props"
    and "resolveBuildCache env root options provider = Inr localPath \<and> \<not> truthy localPath \<and>
         \<not> rebundle options"
    and "configuration options = ''Release'' \<and>
            exportEagerAsync env root \<lparr>resetCache = None, dev = False, platform = ''ios'',
              assetsDest = None, bundleOutput = None\<rparr> = Inl e"
  then show "runIosAsync env root options =
              (t0 @ [ResolveBuildCache root provider,
                     ExportEager root \<lparr>resetCache = None, dev = False, platform = ''ios'',
                       assetsDest = None, bundleOutput = None\<rparr>],
               Inl e)"
    by (rule miss_export_fails)
next
  fix t0 props provider localPath r
  assume "prepare env root options = (t0, Inr props) \<and> \<not> truthy (binary options) \<and>
      \<not> withArchive options \<and> buildCacheProvider props = Some provider \<and> isSimulator props"
    and "resolveBuildCache env root options provider = Inr localPath \<and> \<not> truthy localPath \<and>
         \<not> rebundle options"
    and "configuration options = ''Release'' \<and>
            exportEagerAsync env root \<lparr>resetCache = None, dev = False, platform = ''ios'',
              assetsDest = None, bundleOutput = None\<rparr> = Inr r"
  then show "\<exists>rest. fst (runIosAsync env root options) =
               t0 @ [ResolveBuildCache root provider,
                     ExportEager root \<lparr>resetCache = None, dev = False, platform = ''ios'',
                       assetsDest = None, bundleOutput = None\<rparr>,
                     Build (Some (JSON_stringify env r))] @ rest"
    by (rule miss_export_builds)
next
  fix t0 props provider localPath
  assume "prepare env root options = (t0, Inr props) \<and> \<not> truthy (binary options) \<and>
      \<not> withArchive options \<and> buildCacheProvider props = Some provider \<and> isSimulator props"
    and "resolveBuildCache env root options provider = Inr localPath \<and> \<not> truthy localPath \<and>
         \<not> rebundle options"
    and "snd (runIosAsync env root options) = Inr ()"
  then show "\<exists>eagerBundleOptions buildOutput binaryPath.
               buildAsync env props eagerBundleOptions = Inr buildOutput \<and>
               getAppBinaryPath env buildOutput = Inr binaryPath \<and>
               Build eagerBundleOptions \<in> set (fst (runIosAsync env root options)) \<and>
               UploadBuildCache root provider binaryPath False
                 \<in> set (fst (runIosAsync env root options))"
    by (rule miss_builds_and_uploads)
next
  fix t0 props provider t options' binaryPath upd archivePath
  assume "prepare env root options = (t0, Inr props) \<and> \<not> truthy (binary options) \<and>
      \<not> withArchive options \<and> buildCacheProvider props = Some provider \<and> isSimulator props"
    and "obtainBinary env root options = (t, Inr (props, options', binaryPath, upd, archivePath)) \<and>
         list_ex isFreshBuild (fst (runIosAsync env root options)) \<and>
         snd (runIosAsync env root options) = Inr ()"
  then show "UploadBuildCache root provider binaryPath False \<in> set (fst (runIosAsync env root options))"
    by (rule fresh_build_uploaded)
next
  show "in_order [is_ResolveBuildCache, isFreshBuild, is_UploadBuildCache]
     (filter isCacheOrBuild (fst (runIosAsync env root options)))"
    by (rule cache_build_upload_order)
next
  assume "list_ex is_UploadBuildCache (fst (runIosAsync env root options))"
  then show "list_ex isFreshBuild (fst (runIosAsync env root options))"
    by (rule upload_after_fresh)
next
  assume "truthy (binary options)"
  then show "\<not> list_ex (\<lambda>ev. isFreshBuild ev \<or> is_UploadBuildCache ev)
          (fst (runIosAsync env root options))"
    by (rule supplied_binary_quiet)
qed

theorem cache_fetch_build_upload_witness:
  "\<not> truthy (binary debugOptions) \<and> \<not> withArchive debugOptions \<and>
   buildCacheProvider (simProps ''/p'') = Some ''eas'' \<and> isSimulator (simProps ''/p'') \<and>
   resolveBuildCache okEnv ''/p'' debugOptions ''eas'' = Inr None \<and> \<not> truthy None \<and>
   \<not> rebundle debugOptions \<and> configuration debugOptions \<noteq> ''Release'' \<and>
   (\<exists>rest. fst (runIosAsync okEnv ''/p'' debugOptions) =
      [SetNodeEnv ''development'', EnvLoad ''/p'', EnsureNativeProject ''/p'' False,
       ResolveOptions ''/p''] @ [ResolveBuildCache ''/p'' ''eas'', Build None] @ rest) \<and>
   snd (runIosAsync okEnv ''/p'' debugOptions) = Inr () \<and>
   filter isCacheOrBuild (fst (runIosAsync okEnv ''/p'' debugOptions)) =
     [ResolveBuildCache ''/p'' ''eas'', Build None,
      UploadBuildCache ''/p'' ''eas'' ''built.app'' False] \<and>
   in_order [is_ResolveBuildCache, isFreshBuild, is_UploadBuildCache]
     [ResolveBuildCache ''/p'' ''eas'', Build None,
      UploadBuildCache ''/p'' ''eas'' ''built.app'' False] \<and>
   UploadBuildCache ''/p'' ''eas'' ''built.app'' False
     \<in> set (fst (runIosAsync okEnv ''/p'' debugOptions))"
proof -
  have ob: "obtainBinary okEnv ''/p'' debugOptions =
     ([SetNodeEnv ''development'', EnvLoad ''/p'', EnsureNativeProject ''/p'' False,
       ResolveOptions ''/p'', ResolveBuildCache ''/p'' ''eas'', Build None,
       GetAppBinaryPath ''output'', Debug [''Binary path:'', ''built.app'']],
      Inr (simProps ''/p'', debugOptions, ''built.app'', True, None))"
    using okEnv_obtainBinary [of "simctlAsync okEnv"] by simp
  have pr: "prepare okEnv ''/p'' debugOptions =
     ([SetNodeEnv ''development'', EnvLoad ''/p'', EnsureNativeProject ''/p'' False,
       ResolveOptions ''/p''], Inr (simProps ''/p''))"
    by (simp add: example_defs step_defs run_defs)
  have f: "filter isCacheOrBuild (fst (runIosAsync okEnv ''/p'' debugOptions)) =
     [ResolveBuildCache ''/p'' ''eas'', Build None,
      UploadBuildCache ''/p'' ''eas'' ''built.app'' False]"
    by (simp add: okEnv_run isCacheOrBuild_def isFreshBuild_def)
  have hyp: "\<not> truthy (binary debugOptions) \<and> \<not> withArchive debugOptions \<and>
     buildCacheProvider (simProps ''/p'') = Some ''eas'' \<and> isSimulator (simProps ''/p'')"
    by (simp add: example_defs js_defs)
  have miss: "resolveBuildCache okEnv ''/p'' debugOptions ''eas'' = Inr None \<and> \<not> truthy None \<and>
     \<not> rebundle debugOptions \<and> configuration debugOptions \<noteq> ''Release''"
    by (simp add: example_defs js_defs)
  have fb: "\<exists>rest. fst (runIosAsync okEnv ''/p'' debugOptions) =
      [SetNodeEnv ''development'', EnvLoad ''/p'', EnsureNativeProject ''/p'' False,
       ResolveOptions ''/p''] @ [ResolveBuildCache ''/p'' ''eas'', Build None] @ rest"
    using cache_fetch_build_upload [of okEnv "''/p''" debugOptions, THEN conjunct1, rule_format,
        where props = "simProps ''/p''" and provider = "''eas''",
        THEN conjunct2, THEN conjunct2, THEN conjunct2, THEN conjunct1, rule_format,
        where localPath = None, THEN conjunct1] pr hyp miss
    by simp
  have up: "UploadBuildCache ''/p'' ''eas'' ''built.app'' False
     \<in> set (fst (runIosAsync okEnv ''/p'' debugOptions))"
    using cache_fetch_build_upload [of okEnv "''/p''" debugOptions, THEN conjunct1, rule_format,
        where props = "simProps ''/p''" and provider = "''eas''",
        THEN conjunct2, THEN conjunct2, THEN conjunct2, THEN conjunct2, rule_format,
        where options' = debugOptions and binaryPath = "''built.app''" and upd = True
          and archivePath = None] pr ob hyp
    by (simp add: okEnv_run isFreshBuild_def)
  have ord: "in_order [is_ResolveBuildCache, isFreshBuild, is_UploadBuildCache]
     [ResolveBuildCache ''/p'' ''eas'', Build None,
      UploadBuildCache ''/p'' ''eas'' ''built.app'' False]"
    using cache_fetch_build_upload [of okEnv "''/p''" debugOptions, THEN conjunct2, THEN conjunct1] f
    by simp
  show ?thesis
    using hyp miss f up ord fb by (simp add: okEnv_run)
qed

text \<open>
  C1 as stated fails in three ways. With the archive option set, the run on a simulator
  with a cache provider exports the archive and never asks the build cache. When the launch
  fails after a fresh build, the run ends with that error and nothing is uploaded. With the
  rebundle option set, a run whose fetch returns no binary reuses the binary installed on
  the simulator and completes without a fresh build.
\<close>

theorem cache_fetch_build_upload_counterexample:
  "\<not> truthy (binary archiveOptions) \<and>
   resolveOptionsAsync okEnv ''/p'' archiveOptions = Inr (simProps ''/p'') \<and>
   buildCacheProvider (simProps ''/p'') = Some ''eas'' \<and> isSimulator (simProps ''/p'') \<and>
   runIosAsync okEnv ''/p'' archiveOptions =
     ([SetNodeEnv ''development'', EnvLoad ''/p'', EnsureNativeProject ''/p'' False,
       ResolveOptions ''/p'',
       LogLog [''Found cached archive, exporting signed IPA...''],
       ExportArchive ''/p/.expo/archives/app.xcarchive'' ''/p'',
       GetValidBinaryPath ''app.ipa'',
       LogLog [''Using custom binary path:'', ''app.ipa''],
       Debug [''Binary path:'', ''app.ipa''],
       EnsurePortAvailability ''/p'', GetLaunchInfo ''app.ipa'',
       SimctlTerminate ''U1'' ''com.app'',
       StartBundler 8081 False (Some ''app''),
       LaunchApp ''app.ipa'' 1 True True ''com.app'', LogProjectLogsLocation],
      Inr ()) \<and>
   \<not> list_ex is_ResolveBuildCache (fst (runIosAsync okEnv ''/p'' archiveOptions)) \<and>
   \<not> truthy (binary debugOptions) \<and>
   resolveOptionsAsync launchFailsEnv ''/p'' debugOptions = Inr (simProps ''/p'') \<and>
   runIosAsync launchFailsEnv ''/p'' debugOptions =
     ([SetNodeEnv ''development'', EnvLoad ''/p'', EnsureNativeProject ''/p'' False,
       ResolveOptions ''/p'', ResolveBuildCache ''/p'' ''eas'', Build None,
       GetAppBinaryPath ''output'', Debug [''Binary path:'', ''built.app''],
       EnsurePortAvailability ''/p'', GetLaunchInfo ''built.app'',
       SimctlTerminate ''U1'' ''com.app'', GetSchemesForIos ''/p'',
       StartBundler 8081 False (Some ''app''),
       LaunchApp ''built.app'' 1 True True ''com.app''],
      Inl (Error ''install failed'')) \<and>
   list_ex isFreshBuild (fst (runIosAsync launchFailsEnv ''/p'' debugOptions)) \<and>
   \<not> list_ex is_UploadBuildCache (fst (runIosAsync launchFailsEnv ''/p'' debugOptions)) \<and>
   \<not> truthy (binary rebundleOptions) \<and>
   resolveOptionsAsync okEnv ''/p'' rebundleOptions = Inr (simProps ''/p'') \<and>
   resolveBuildCache okEnv ''/p'' rebundleOptions ''eas'' = Inr None \<and>
   runIosAsync okEnv ''/p'' rebundleOptions =
     ([SetNodeEnv ''development'', EnvLoad ''/p'', EnsureNativeProject ''/p'' False,
       ResolveOptions ''/p'', ResolveBuildCache ''/p'' ''eas'',
       LogWarn [''The --unstable-rebundle flag is experimental and may not work as expected.''],
       GetAppId ''/p'', GetContainerPath ''U1'' ''com.app'',
       LogLog [''Re-using existing binary path:'', ''container.app''],
       LogLog [''Rebundling the Expo config file''],
       RequireResolve ''expo-constants/package.json'',
       Spawn ''node'' [''expo-constants/package.json/../scripts/getAppConfig.js'', ''/p'',
         ''container.app/EXConstants.bundle''],
       ExistsSync ''container.app/main.jsbundle'',
       LogLog [''Rebundling the app...''],
       ExportEager ''/p'' \<lparr>resetCache = Some False, dev = False, platform = ''ios'',
         assetsDest = Some ''container.app/assets'',
         bundleOutput = Some ''container.app/main.jsbundle''\<rparr>,
       GetValidBinaryPath ''container.app'',
       LogLog [''Using custom binary path:'', ''container.app''],
       Debug [''Binary path:'', ''container.app''],
       EnsurePortAvailability ''/p'', GetLaunchInfo ''container.app'',
       SimctlTerminate ''U1'' ''com.app'',
       StartBundler 8081 False (Some ''app''),
       LaunchApp ''container.app'' 1 True True ''com.app'', LogProjectLogsLocation],
      Inr ()) \<and>
   \<not> list_ex isFreshBuild (fst (runIosAsync okEnv ''/p'' rebundleOptions))"
proof -
  have a: "runIosAsync okEnv ''/p'' archiveOptions =
     ([SetNodeEnv ''development'', EnvLoad ''/p'', EnsureNativeProject ''/p'' False,
       ResolveOptions ''/p'',
       LogLog [''Found cached archive, exporting signed IPA...''],
       ExportArchive ''/p/.expo/archives/app.xcarchive'' ''/p'',
       GetValidBinaryPath ''app.ipa'',
       LogLog [''Using custom binary path:'', ''app.ipa''],
       Debug [''Binary path:'', ''app.ipa''],
       EnsurePortAvailability ''/p'', GetLaunchInfo ''app.ipa'',
       SimctlTerminate ''U1'' ''com.app'',
       StartBundler 8081 False (Some ''app''),
       LaunchApp ''app.ipa'' 1 True True ''com.app'', LogProjectLogsLocation],
      Inr ())"
    by (simp add: runIosAsync_def example_defs step_defs run_defs js_defs Let_def)
  have b: "runIosAsync launchFailsEnv ''/p'' debugOptions =
     ([SetNodeEnv ''development'', EnvLoad ''/p'', EnsureNativeProject ''/p'' False,
       ResolveOptions ''/p'', ResolveBuildCache ''/p'' ''eas'', Build None,
       GetAppBinaryPath ''output'', Debug [''Binary path:'', ''built.app''],
       EnsurePortAvailability ''/p'', GetLaunchInfo ''built.app'',
       SimctlTerminate ''U1'' ''com.app'', GetSchemesForIos ''/p'',
       StartBundler 8081 False (Some ''app''),
       LaunchApp ''built.app'' 1 True True ''com.app''],
      Inl (Error ''install failed''))"
    by (simp add: runIosAsync_def launchFailsEnv_def example_defs step_defs run_defs js_defs
          Let_def)
  have c: "runIosAsync okEnv ''/p'' rebundleOptions =
     ([SetNodeEnv ''development'', EnvLoad ''/p'', EnsureNativeProject ''/p'' False,
       ResolveOptions ''/p'', ResolveBuildCache ''/p'' ''eas'',
       LogWarn [''The --unstable-rebundle flag is experimental and may not work as expected.''],
       GetAppId ''/p'', GetContainerPath ''U1'' ''com.app'',
       LogLog [''Re-using existing binary path:'', ''container.app''],
       LogLog [''Rebundling the Expo config file''],
       RequireResolve ''expo-constants/package.json'',
       Spawn ''node'' [''expo-constants/package.json/../scripts/getAppConfig.js'', ''/p'',
         ''container.app/EXConstants.bundle''],
       ExistsSync ''container.app/main.jsbundle'',
       LogLog [''Rebundling the app...''],
       ExportEager ''/p'' \<lparr>resetCache = Some False, dev = False, platform = ''ios'',
         assetsDest = Some ''container.app/assets'',
         bundleOutput = Some ''container.app/main.jsbundle''\<rparr>,
       GetValidBinaryPath ''container.app'',
       LogLog [''Using custom binary path:'', ''container.app''],
       Debug [''Binary path:'', ''container.app''],
       EnsurePortAvailability ''/p'', GetLaunchInfo ''container.app'',
       SimctlTerminate ''U1'' ''com.app'',
       StartBundler 8081 False (Some ''app''),
       LaunchApp ''container.app'' 1 True True ''com.app'', LogProjectLogsLocation],
      Inr ())"
    by (simp add: runIosAsync_def rebundleOptions_def example_defs step_defs run_defs js_defs
          Let_def)
  show ?thesis
    by (simp add: a b c)
       (simp add: launchFailsEnv_def rebundleOptions_def example_defs js_defs isFreshBuild_def)
qed

end
